theory Spec2Isabelle
  imports Main "HOL-Library.Word"
begin

unbundle bit_operations_syntax

section \<open>Randomised iteration over storage indices\<close>

text \<open>
  The callbacks handed to the iterators are closures that mutate captured variables.
  A callback is therefore a function from the index and the captured state to the
  \<open>done\<close> flag and the new state.
\<close>

type_synonym 's callback = "int \<Rightarrow> 's \<Rightarrow> bool \<times> 's"

text \<open>
  Go's \<open>%\<close> truncates towards zero: the remainder takes the sign of the dividend.
\<close>

definition go_rem :: "int \<Rightarrow> int \<Rightarrow> int" where
  "go_rem a b = sgn a * (\<bar>a\<bar> mod \<bar>b\<bar>)"

text \<open>
  \<open>randIntn\<close> receives one sample \<open>rn\<close> from the channel \<open>rd\<close>, which is fed by
  \<open>rand.Int()\<close>, a non-negative integer; the sample is a parameter of the model.
  Both callers pass \<open>n \<noteq> 0\<close> (a zero divisor panics in Go).
\<close>

definition randIntn :: "nat \<Rightarrow> int \<Rightarrow> int" where
  "randIntn rn n = go_rem (int rn) n"

text \<open>
  The loop \<open>for i := lo; i < hi; i++ { if cb(i) { return true } }\<close>; the result
  \<open>False\<close> means that the loop ran to its end.
\<close>

function for_range :: "'s callback \<Rightarrow> int \<Rightarrow> int \<Rightarrow> 's \<Rightarrow> bool \<times> 's" where
  "for_range cb i hi s =
     (if i < hi
      then (let (d, s') = cb i s in if d then (True, s') else for_range cb (i + 1) hi s')
      else (False, s))"
  by pat_completeness auto
termination
  by (relation "measure (\<lambda>(cb, i, hi, s). nat (hi - i))") auto

declare for_range.simps [simp del]

definition forEachFromRandomIndex :: "nat \<Rightarrow> int \<Rightarrow> 's callback \<Rightarrow> 's \<Rightarrow> bool \<times> 's" where
  "forEachFromRandomIndex rn leng cb s =
     (if leng \<le> 0 then (False, s)
      else
        let start = randIntn rn leng;
            (d, s1) = for_range cb start leng s
        in if d then (True, s1) else for_range cb 0 start s1)"

text \<open>
  The scan \<open>for i, p := range poss { if n < p { start = i; break }; n -= p }\<close> with
  \<open>start\<close> initially 0; \<open>n\<close> and the weights are of Go's type \<open>uint\<close> (64 bits).
\<close>

fun find_start :: "64 word list \<Rightarrow> 64 word \<Rightarrow> int \<Rightarrow> int" where
  "find_start [] n i = 0"
| "find_start (p # ps) n i = (if n < p then i else find_start ps (n - p) (i + 1))"

definition forEachFromRandomIndexWithPossibility ::
  "nat \<Rightarrow> 64 word list \<Rightarrow> 64 word \<Rightarrow> 's callback \<Rightarrow> 's \<Rightarrow> bool \<times> 's" where
  "forEachFromRandomIndexWithPossibility rn poss totalw cb s =
     (let leng = int (length poss) in
      if leng = 0 then (False, s)
      else if totalw = 0 then forEachFromRandomIndex rn leng cb s
      else
        let n = (word_of_int (randIntn rn (sint totalw)) :: 64 word);
            start = find_start poss n 0;
            (d, s1) = for_range cb start leng s
        in if d then (True, s1) else for_range cb 0 start s1)"

subsection \<open>The iteration order of the specification\<close>

text \<open>
  The specification's order \<open>start, start+1, \<dots>, length-1, 0, \<dots>, start-1\<close>, and its
  reading of the iteration: call \<open>cb\<close> on the indices in that order, stop as soon as
  one call returns true, and return true iff some call did. These two definitions follow
  the specification's words; the theorems compare them with the loops of the source.
\<close>

definition wrap_order :: "int \<Rightarrow> int \<Rightarrow> int list" where
  "wrap_order start leng = [start..leng - 1] @ [0..start - 1]"

fun visit_until :: "'s callback \<Rightarrow> int list \<Rightarrow> 's \<Rightarrow> bool \<times> 's" where
  "visit_until cb [] s = (False, s)"
| "visit_until cb (i # is) s =
     (let (d, s') = cb i s in if d then (True, s') else visit_until cb is s')"

text \<open>
  A callback instrumented with a log of its invocations: each call appends the index and
  the flag it returned. The log is a ghost variable; the callback's own state and result
  stay as they are.
\<close>

definition record_calls :: "'s callback \<Rightarrow> ((int \<times> bool) list \<times> 's) callback" where
  "record_calls cb i = (\<lambda>(tr, s). let (d, s') = cb i s in (d, (tr @ [(i, d)], s')))"

text \<open>
  What a log of one iteration has to look like: the indices called are an initial segment
  of the wrap-around order, no call but the last returned true, the iteration's result is
  true iff the last call returned true, and a false result means every index was called.
\<close>

definition wrap_walk :: "int \<Rightarrow> int \<Rightarrow> (int \<times> bool) list \<Rightarrow> bool \<Rightarrow> bool" where
  "wrap_walk start leng calls d \<longleftrightarrow>
     length calls \<le> length (wrap_order start leng) \<and>
     map fst calls = take (length calls) (wrap_order start leng) \<and>
     (\<forall>c \<in> set (butlast calls). \<not> snd c) \<and>
     (d \<longleftrightarrow> calls \<noteq> [] \<and> snd (last calls)) \<and>
     (\<not> d \<longrightarrow> map fst calls = wrap_order start leng)"

text \<open>The start that the weighted iterator picks for a non-empty weight list.\<close>

definition weighted_start :: "nat \<Rightarrow> 64 word list \<Rightarrow> 64 word \<Rightarrow> int" where
  "weighted_start rn poss totalw =
     (if totalw = 0 then randIntn rn (int (length poss))
      else find_start poss (word_of_int (randIntn rn (sint totalw))) 0)"

section \<open>Strings and numbers of the Go standard library\<close>

text \<open>
  A Go string is a sequence of bytes, and so is a \<open>string\<close> here. The functions of this
  section are those of the packages \<open>strings\<close>, \<open>strconv\<close>, \<open>net/textproto\<close> and
  \<open>net\<close> that the handlers call, for the separators the handlers pass.
\<close>

definition HasPrefix :: "string \<Rightarrow> string \<Rightarrow> bool" where
  "HasPrefix s p \<longleftrightarrow> take (length p) s = p"

definition CutPrefix :: "string \<Rightarrow> string \<Rightarrow> string \<times> bool" where
  "CutPrefix s p = (if HasPrefix s p then (drop (length p) s, True) else (s, False))"

text \<open>\<open>strings.Cut\<close> for a separator of one byte: the text before and after its
  first occurrence, and whether it occurs.\<close>

definition Cut :: "string \<Rightarrow> char \<Rightarrow> string \<times> string \<times> bool" where
  "Cut s sep =
     (if sep \<in> set s
      then (takeWhile (\<lambda>c. c \<noteq> sep) s, tl (dropWhile (\<lambda>c. c \<noteq> sep) s), True)
      else (s, [], False))"

definition isASCIISpace :: "char \<Rightarrow> bool" where
  "isASCIISpace b \<longleftrightarrow> b = CHR '' '' \<or> b = CHR 0x09 \<or> b = CHR 0x0A \<or> b = CHR 0x0D"

definition TrimString :: "string \<Rightarrow> string" where
  "TrimString s = rev (dropWhile isASCIISpace (rev (dropWhile isASCIISpace s)))"

datatype num_error = ErrSyntax | ErrRange

definition maxUint64 :: nat where
  "maxUint64 = 18446744073709551615"

text \<open>The value of a digit in \<open>strconv.ParseUint\<close>: \<open>0..9\<close>, and a letter of either
  case counts from 10.\<close>

definition digit_val :: "char \<Rightarrow> nat option" where
  "digit_val c =
     (let n = (of_char c :: nat) in
      if 48 \<le> n \<and> n \<le> 57 then Some (n - 48)
      else if 97 \<le> n \<and> n \<le> 122 then Some (n - 97 + 10)
      else if 65 \<le> n \<and> n \<le> 90 then Some (n - 65 + 10)
      else None)"

text \<open>
  The digit loop of \<open>strconv.ParseUint\<close> for a base in \<open>2..36\<close> and 64 bits: a byte
  that is no digit of the base is a syntax error; \<open>n \<ge> cutoff\<close> (the product would
  overflow) and a sum beyond \<open>maxUint64\<close> are range errors.
\<close>

fun ParseUint_loop :: "nat \<Rightarrow> nat \<Rightarrow> string \<Rightarrow> num_error + nat" where
  "ParseUint_loop base n [] = Inr n"
| "ParseUint_loop base n (c # cs) =
     (case digit_val c of
        None \<Rightarrow> Inl ErrSyntax
      | Some d \<Rightarrow>
          if d \<ge> base then Inl ErrSyntax
          else if n \<ge> maxUint64 div base + 1 then Inl ErrRange
          else if n * base + d > maxUint64 then Inl ErrRange
          else ParseUint_loop base (n * base + d) cs)"

definition ParseUint :: "string \<Rightarrow> nat \<Rightarrow> num_error + nat" where
  "ParseUint s base = (if s = [] then Inl ErrSyntax else ParseUint_loop base 0 s)"

text \<open>\<open>strconv.ParseInt(s, base, 64)\<close>: an optional sign, then \<open>ParseUint\<close>; the
  result is a value of \<open>int64\<close>.\<close>

definition ParseInt :: "string \<Rightarrow> nat \<Rightarrow> num_error + int" where
  "ParseInt s base =
     (if s = [] then Inl ErrSyntax
      else
        let (neg, s1) =
              (if hd s = CHR ''+'' then (False, tl s)
               else if hd s = CHR ''-'' then (True, tl s)
               else (False, s))
        in case ParseUint s1 base of
             Inl e \<Rightarrow> Inl e
           | Inr un \<Rightarrow>
               if \<not> neg \<and> un \<ge> 2 ^ 63 then Inl ErrRange
               else if neg \<and> un > 2 ^ 63 then Inl ErrRange
               else Inr (if neg then - int un else int un))"

text \<open>\<open>strconv.Itoa\<close>: the decimal digits, with a minus sign for a negative number.\<close>

fun digits10 :: "nat \<Rightarrow> string" where
  "digits10 n =
     (if n < 10 then [''0123456789'' ! n] else digits10 (n div 10) @ [''0123456789'' ! (n mod 10)])"

declare digits10.simps [simp del]

definition Itoa :: "int \<Rightarrow> string" where
  "Itoa i = (if i < 0 then CHR ''-'' # digits10 (nat (- i)) else digits10 (nat i))"





section \<open>The first start of a Range header\<close>

text \<open>
  \<open>parseRangeFirstStart\<close> of \<open>handler.go\<close>. Its named results \<open>start\<close> and \<open>ok\<close>
  are 0 and false at a bare \<open>return\<close>.
\<close>

definition parseRangeFirstStart :: "string \<Rightarrow> int \<times> bool" where
  "parseRangeFirstStart rg =
     (let (rg1, ok1) = CutPrefix rg ''bytes='' in
      if \<not> ok1 then (0, False)
      else
        let (rg2, after2, found2) = Cut rg1 CHR '','';
            (rg3, after3, ok3) = Cut rg2 CHR ''-''
        in if \<not> ok3 then (0, False)
           else
             let rg4 = TrimString rg3 in
             if rg4 = [] then (- 1, True)
             else (case ParseInt rg4 10 of
                     Inl err \<Rightarrow> (0, False)
                   | Inr start \<Rightarrow> (start, True)))"

section \<open>The query signature\<close>

text \<open>
  Functions that the handlers call and whose code is outside the files at hand are
  parameters of the model: the digests of Go's \<open>crypto\<close> packages (\<open>SHA1_Sum\<close> and
  \<open>MD5_Sum\<close> map the bytes written to a hash to its digest), \<open>http.StatusText\<close>,
  \<open>strconv.Quote\<close> (the verb \<open>%q\<close>), \<open>strings.ToLower\<close> and \<open>utils.IsHex\<close>.
\<close>

record golib =
  SHA1_Sum :: "string \<Rightarrow> string"
  MD5_Sum :: "string \<Rightarrow> string"
  StatusText :: "int \<Rightarrow> string"
  Quote :: "string \<Rightarrow> string"
  strings_ToLower :: "string \<Rightarrow> string"
  utils_IsHex :: "string \<Rightarrow> bool"

definition hexdigit :: "nat \<Rightarrow> char" where
  "hexdigit n = ''0123456789abcdef'' ! n"

text \<open>\<open>hex.EncodeToString\<close>: two lower-case digits for each byte.\<close>

definition EncodeToString :: "string \<Rightarrow> string" where
  "EncodeToString bs =
     concat (map (\<lambda>b. [hexdigit (of_char b div 16), hexdigit (of_char b mod 16)]) bs)"

definition encodeURL :: string where
  "encodeURL = ''ABCDEFGHIJKLMNOPQRSTUVWXYZabcdefghijklmnopqrstuvwxyz0123456789-_''"

text \<open>
  \<open>base64.RawURLEncoding.Encode\<close>: three bytes give four characters of the URL
  alphabet; one or two bytes left over give two or three characters, without padding.
\<close>

fun RawURLEncode :: "string \<Rightarrow> string" where
  "RawURLEncode (a # b # c # rest) =
     (let v = (of_char a :: nat) * 65536 + of_char b * 256 + of_char c in
      [encodeURL ! (v div 262144), encodeURL ! (v div 4096 mod 64),
       encodeURL ! (v div 64 mod 64), encodeURL ! (v mod 64)] @ RawURLEncode rest)"
| "RawURLEncode [a, b] =
     (let v = (of_char a :: nat) * 65536 + of_char b * 256 in
      [encodeURL ! (v div 262144), encodeURL ! (v div 4096 mod 64),
       encodeURL ! (v div 64 mod 64)])"
| "RawURLEncode [a] =
     (let v = (of_char a :: nat) * 65536 in
      [encodeURL ! (v div 262144), encodeURL ! (v div 4096 mod 64)])"
| "RawURLEncode [] = []"

text \<open>\<open>url.Values\<close> and its \<open>Get\<close>: the first value of the key, or the empty
  string.\<close>

type_synonym Values = "string \<rightharpoonup> string list"

definition Get :: "Values \<Rightarrow> string \<Rightarrow> string" where
  "Get q k = (case q k of None \<Rightarrow> [] | Some [] \<Rightarrow> [] | Some (v # vs) \<Rightarrow> v)"

text \<open>
  \<open>checkQuerySign\<close>; \<open>now\<close> is the reading of \<open>time.Now().UnixMilli()\<close>. The digest
  has 20 bytes, which fill the 27 bytes of \<open>sbuf\<close>.
\<close>

definition checkQuerySign :: "golib \<Rightarrow> int \<Rightarrow> string \<Rightarrow> string \<Rightarrow> Values \<Rightarrow> bool" where
  "checkQuerySign L now hash secret query =
     (let sign = Get query ''s''; e = Get query ''e'' in
      if length sign = 0 \<or> length e = 0 then False
      else (case ParseInt e 36 of
              Inl err \<Rightarrow> False
            | Inr before \<Rightarrow>
                let sbuf = RawURLEncode (SHA1_Sum L (secret @ hash @ e)) in
                if sbuf \<noteq> sign then False
                else now < before))"

text \<open>
  Modelled from the spec: the signing of a URL, which is done by the authority and is not
  part of this repository. The spec's signed tuple is \<open>(hash, e, s)\<close> with \<open>e\<close> the
  expiry in base 36 and \<open>s\<close> the unpadded base64url encoding of
  \<open>SHA1(secret || hash || e)\<close>.
\<close>

fun digits36 :: "nat \<Rightarrow> string" where
  "digits36 n =
     (if n < 36 then [''0123456789abcdefghijklmnopqrstuvwxyz'' ! n]
      else digits36 (n div 36) @ [''0123456789abcdefghijklmnopqrstuvwxyz'' ! (n mod 36)])"

declare digits36.simps [simp del]

definition sign_query :: "golib \<Rightarrow> string \<Rightarrow> string \<Rightarrow> nat \<Rightarrow> Values" where
  "sign_query L hash secret expiry =
     (let e = digits36 expiry in
      [''e'' \<mapsto> [e], ''s'' \<mapsto> [RawURLEncode (SHA1_Sum L (secret @ hash @ e))]])"

section \<open>Requests, responses and the cluster\<close>

text \<open>
  The response writer as the handlers see it: the header map, the status captured at the
  first \<open>WriteHeader\<close> (0 before it, as in \<open>statusResponseWriter\<close>), the number of
  bytes written and the bytes themselves. \<open>net/http\<close> keys the header map by the
  canonical form of a name; the source writes each name in one spelling, which is the
  key here.
\<close>

record response =
  header :: "string \<rightharpoonup> string"
  status :: int
  wrote :: int
  body :: string

definition Header_Set :: "response \<Rightarrow> string \<Rightarrow> string \<Rightarrow> response" where
  "Header_Set w k v = w\<lparr>header := (header w)(k \<mapsto> v)\<rparr>"

definition Header_Get :: "(string \<rightharpoonup> string) \<Rightarrow> string \<Rightarrow> string" where
  "Header_Get h k = (case h k of None \<Rightarrow> [] | Some v \<Rightarrow> v)"

definition WriteHeader :: "response \<Rightarrow> int \<Rightarrow> response" where
  "WriteHeader w code = (if status w = 0 then w\<lparr>status := code\<rparr> else w)"

definition Write :: "response \<Rightarrow> string \<Rightarrow> response" where
  "Write w buf = w\<lparr>wrote := wrote w + int (length buf), body := body w @ buf\<rparr>"

text \<open>\<open>http.Error\<close>: a plain-text body with the message and a newline.\<close>

definition http_Error :: "response \<Rightarrow> string \<Rightarrow> int \<Rightarrow> response" where
  "http_Error w msg code =
     Write (WriteHeader (Header_Set (Header_Set w ''Content-Type'' ''text/plain; charset=utf-8'')
                           ''X-Content-Type-Options'' ''nosniff'') code)
       (msg @ [CHR 0x0A])"

text \<open>
  The request: method, \<open>URL.EscapedPath()\<close>, \<open>URL.Path\<close>, \<open>URL.RawQuery\<close>,
  \<open>URL.ForceQuery\<close> (the target ends in \<open>?\<close> with no query), the parsed query, \<open>Host\<close>, the header map (keyed like the response's), and whether the context
  value \<open>go-openbmclapi.handler.no.record.for.keepalive\<close> is \<open>true\<close>.
\<close>

record request =
  Method :: string
  rawpath :: string
  path :: string
  rawquery :: string
  forcequery :: bool
  query :: Values
  host :: string
  reqheader :: "string \<rightharpoonup> string"
  no_record_for_keepalive :: bool

text \<open>
  An error value, as far as the dispatcher looks at it: whether \<open>errors.Is(err,
  os.ErrNotExist)\<close> holds, whether it is a \<open>*utils.HTTPStatusError\<close>, and its message.
\<close>

datatype error = NotExistError string | HTTPStatusError int | OtherError string

definition err_Error :: "golib \<Rightarrow> error \<Rightarrow> string" where
  "err_Error L e =
     (case e of
        NotExistError m \<Rightarrow> m
      | HTTPStatusError c \<Rightarrow> ''Unexpected http status '' @ Itoa c @ '' '' @ StatusText L c
      | OtherError m \<Rightarrow> m)"

text \<open>
  A storage backend: its name (\<open>String()\<close>) and \<open>ServeDownload\<close>, which gets the
  request, the response writer, the hash and the size, and returns the response writer
  as it left it, the number of bytes served (an \<open>int64\<close>) and the error, if any.
\<close>

record storage =
  sto_String :: string
  ServeDownload :: "request \<Rightarrow> response \<Rightarrow> string \<Rightarrow> 64 word \<Rightarrow> response \<times> 64 word \<times> error option"

text \<open>
  The fields of \<open>Cluster\<close> that the handlers read. \<open>CachedFileSize\<close> and
  \<open>DownloadFile\<close> are the file index and the fetch of a missing file.
\<close>

record Cluster =
  clusterSecret :: string
  shouldEnable :: bool
  storages :: "storage list"
  storageWeights :: "64 word list"
  storageTotalWeight :: "64 word"
  publicHosts :: "string list"
  publicPort :: "16 word"
  CachedFileSize :: "string \<Rightarrow> 64 word \<times> bool"
  DownloadFile :: "string \<Rightarrow> error option"

text \<open>
  What a request changes: the response writer, the extras map of the access log
  (\<open>None\<close> when the context carries none), the four atomic counters of the cluster, a
  log of the collaborators that were called, and whether the handler panicked (a panic
  ends the handler where it is raised).
\<close>

datatype event = EvCheckSign | EvCachedFileSize | EvDownloadFile | EvServeDownload nat

record world =
  rw :: response
  extras :: "(string \<rightharpoonup> string) option"
  hits :: "64 word"
  hbts :: "64 word"
  statHits :: "64 word"
  statHbts :: "64 word"
  trace :: "event list"
  panicked :: bool

definition SetAccessInfo :: "world \<Rightarrow> string \<Rightarrow> string \<Rightarrow> world" where
  "SetAccessInfo w k v = w\<lparr>extras := map_option (\<lambda>m. m(k \<mapsto> v)) (extras w)\<rparr>"

section \<open>The download dispatcher\<close>

text \<open>\<open>emptyHashes\<close>: the hex digests of no input, for MD5 and SHA-1.\<close>

definition emptyHashes :: "golib \<Rightarrow> string list" where
  "emptyHashes L = [EncodeToString (MD5_Sum L []), EncodeToString (SHA1_Sum L [])]"

text \<open>The step of \<open>handleDownload\<close> that looks at the \<open>Range\<close> header.\<close>

definition annotateRange :: "request \<Rightarrow> world \<Rightarrow> world" where
  "annotateRange req w =
     (let r = Header_Get (reqheader req) ''Range'' in
      if r \<noteq> [] then
        (let (start, ok) = parseRangeFirstStart r in
         if ok \<and> start \<noteq> 0 then SetAccessInfo w ''skip-ua-count'' ''range'' else w)
      else w)"

text \<open>
  The closure handed to the iterator. It captures \<open>sto\<close> and \<open>err\<close> of
  \<open>handleDownload\<close>, the response writer and the counters. An index outside
  \<open>cr.storages\<close> panics; the walk then stops, and \<open>handleDownload\<close> ends.
\<close>

type_synonym walk_state = "storage option \<times> error option \<times> world"

definition download_cb ::
  "Cluster \<Rightarrow> request \<Rightarrow> string \<Rightarrow> 64 word \<Rightarrow> bool \<Rightarrow> walk_state callback" where
  "download_cb cr req hash fsize keepaliveRec i =
     (\<lambda>(sto, err, w).
        if i < 0 \<or> int (length (storages cr)) \<le> i
        then (True, (sto, err, w\<lparr>panicked := True\<rparr>))
        else
          let sto1 = storages cr ! nat i;
              (rw1, sz, er) = ServeDownload sto1 req (rw w) hash fsize;
              w1 = w\<lparr>rw := rw1, trace := trace w @ [EvServeDownload (nat i)]\<rparr>
          in case er of
               Some e \<Rightarrow> (False, (Some sto1, Some e, w1))
             | None \<Rightarrow>
                 (True, (Some sto1, err,
                    if 0 \<le>s sz
                    then (if keepaliveRec
                          then w1\<lparr>hits := hits w1 + 1, hbts := hbts w1 + sz\<rparr>
                          else w1\<lparr>statHits := statHits w1 + 1, statHbts := statHbts w1 + sz\<rparr>)
                    else w1)))"

text \<open>The end of \<open>handleDownload\<close>, for \<open>err != nil\<close>.\<close>

definition respondError :: "golib \<Rightarrow> world \<Rightarrow> error \<Rightarrow> world" where
  "respondError L w e =
     (case e of
        NotExistError m \<Rightarrow> w\<lparr>rw := http_Error (rw w) ''404 Status Not Found'' 404\<rparr>
      | HTTPStatusError c \<Rightarrow> w\<lparr>rw := http_Error (rw w) (err_Error L e) 502\<rparr>
      | OtherError m \<Rightarrow> w\<lparr>rw := http_Error (rw w) (err_Error L e) 500\<rparr>)"

definition handleDownload :: "golib \<Rightarrow> Cluster \<Rightarrow> nat \<Rightarrow> request \<Rightarrow> string \<Rightarrow> world \<Rightarrow> world" where
  "handleDownload L cr rn req hash w0 =
     (let keepaliveRec = \<not> no_record_for_keepalive req;
          w = w0\<lparr>rw := Header_Set (rw w0) ''X-Bmclapi-Hash'' hash\<rparr>
      in
      if hash \<in> set (emptyHashes L) then
        (let name = Get (query req) ''name'';
             r1 = Header_Set (rw w) ''ETag'' (CHR 0x22 # hash @ [CHR 0x22]);
             r2 = Header_Set r1 ''Cache-Control'' ''public, max-age=31536000, immutable'';
             r3 = Header_Set r2 ''Content-Type'' ''application/octet-stream'';
             r4 = Header_Set r3 ''Content-Length'' ''0'';
             r5 = (if name \<noteq> []
                   then Header_Set r4 ''Content-Disposition'' (''attachment; filename='' @ Quote L name)
                   else r4);
             r6 = WriteHeader r5 200
         in if keepaliveRec then w\<lparr>rw := r6, hits := hits w + 1\<rparr>
            else w\<lparr>rw := r6, statHits := statHits w + 1\<rparr>)
      else if \<not> shouldEnable cr then
        w\<lparr>rw := http_Error (rw w) ''Cluster is not enabled yet'' 503\<rparr>
      else
        (let w1 = annotateRange req w;
             (fsize, ok) = CachedFileSize cr hash;
             w2 = w1\<lparr>trace := trace w1 @ [EvCachedFileSize]\<rparr>;
             w3 = (if ok then w2 else w2\<lparr>trace := trace w2 @ [EvDownloadFile]\<rparr>)
         in if \<not> ok \<and> DownloadFile cr hash \<noteq> None then
              w3\<lparr>rw := http_Error (rw w3) ''404 not found'' 404\<rparr>
            else
              (let (d, sto, err, w4) =
                     forEachFromRandomIndexWithPossibility rn (storageWeights cr)
                       (storageTotalWeight cr) (download_cb cr req hash fsize keepaliveRec)
                       (None, None, w3)
               in if panicked w4 then w4
                  else
                    let w5 = (case sto of
                                Some s \<Rightarrow> SetAccessInfo w4 ''storage'' (sto_String s)
                              | None \<Rightarrow> w4)
                    in case err of
                         None \<Rightarrow> w5
                       | Some e \<Rightarrow> respondError L w5 e)))"

section \<open>The router\<close>

definition HeaderXPoweredBy :: string where
  "HeaderXPoweredBy = ''go-openbmclapi; url=https://github.com/LiterMC/go-openbmclapi''"

text \<open>
  \<open>ServeHTTP\<close>: the case of the prefix \<open>/download/\<close>; the cases after it (measure, api,
  dashboard, bmclapi, not found) are the parameter \<open>others\<close>. \<open>now\<close> is the clock
  reading of the signature check and \<open>rn\<close> the random sample of the walk.
\<close>

definition ServeHTTP ::
  "golib \<Rightarrow> Cluster \<Rightarrow> nat \<Rightarrow> int \<Rightarrow> (request \<Rightarrow> world \<Rightarrow> world) \<Rightarrow> request \<Rightarrow> world \<Rightarrow> world" where
  "ServeHTTP L cr rn now others req w0 =
     (let w = w0\<lparr>rw := Header_Set (rw w0) ''X-Powered-By'' HeaderXPoweredBy\<rparr> in
      if HasPrefix (rawpath req) ''/download/'' then
        (if Method req \<noteq> ''GET'' \<and> Method req \<noteq> ''HEAD'' then
           w\<lparr>rw := http_Error (Header_Set (rw w) ''Allow'' ''GET, HEAD'')
                      ''405 Method Not Allowed'' 405\<rparr>
         else
           let hash = drop (length ''/download/'') (rawpath req) in
           if \<not> utils_IsHex L hash then
             w\<lparr>rw := http_Error (rw w) (hash @ '' is not a valid hash'') 404\<rparr>
           else
             let w1 = w\<lparr>trace := trace w @ [EvCheckSign]\<rparr> in
             if \<not> checkQuerySign L now hash (clusterSecret cr) (query req) then
               w1\<lparr>rw := http_Error (rw w1) ''Cannot verify signature'' 403\<rparr>
             else handleDownload L cr rn req hash w1)
      else others req w)"

text \<open>
  Modelled from the spec: \<open>utils.IsHex\<close>, whose file is not among the sources. The spec
  has a hash be a lower-case hex string of length 32 or 40; any other length and any
  other character make it invalid.
\<close>

definition IsHex :: "string \<Rightarrow> bool" where
  "IsHex h \<longleftrightarrow>
     (length h = 32 \<or> length h = 40) \<and> (\<forall>c \<in> set h. c \<in> set ''0123456789abcdef'')"

text \<open>
  The state of \<open>handleDownload\<close> when the walk begins, for a hash that is not a digest
  of the empty input and an enabled cluster: the hash header is set, the \<open>Range\<close> step
  is done, and the file index was asked (and, on a miss, \<open>DownloadFile\<close>).
\<close>

definition before_walk :: "request \<Rightarrow> string \<Rightarrow> bool \<Rightarrow> world \<Rightarrow> world" where
  "before_walk req hash ok w0 =
     (let w1 = annotateRange req (w0\<lparr>rw := Header_Set (rw w0) ''X-Bmclapi-Hash'' hash\<rparr>);
          w2 = w1\<lparr>trace := trace w1 @ [EvCachedFileSize]\<rparr>
      in if ok then w2 else w2\<lparr>trace := trace w2 @ [EvDownloadFile]\<rparr>)"

text \<open>The counters after a backend served \<open>sz\<close> bytes without error: a negative
  \<open>sz\<close> counts nothing.\<close>

definition count_hit :: "bool \<Rightarrow> 64 word \<Rightarrow> world \<Rightarrow> world" where
  "count_hit keepaliveRec sz w =
     (if 0 \<le>s sz
      then (if keepaliveRec then w\<lparr>hits := hits w + 1, hbts := hbts w + sz\<rparr>
            else w\<lparr>statHits := statHits w + 1, statHbts := statHbts w + sz\<rparr>)
      else w)"

text \<open>The status that \<open>handleDownload\<close> gives to an error of the walk.\<close>

definition error_status :: "error \<Rightarrow> int" where
  "error_status e = (case e of NotExistError m \<Rightarrow> 404 | HTTPStatusError c \<Rightarrow> 502 | OtherError m \<Rightarrow> 500)"

section \<open>The middlewares\<close>





text \<open>
  The record sent to the aggregator. \<open>used\<close> is the elapsed time in nanoseconds and
  \<open>bytes\<close> the number of bytes written; the source stores both as \<open>float64\<close> (seconds
  and bytes).
\<close>

record stat_record =
  used :: int
  bytes :: int
  ua :: string
  isRange :: bool

text \<open>The guard before the metric, as the source writes it.\<close>

definition status_gate :: "int \<Rightarrow> bool" where
  "status_gate st \<longleftrightarrow> st < 200 \<and> 400 \<le> st"

text \<open>
  The middleware returned by \<open>getRecordMiddleWare\<close>, without its log lines. \<open>elapsed\<close>
  is \<open>time.Since(start)\<close>; \<open>recordCh\<close> is the content of the channel (capacity 1024)
  when the record is sent, and a send to a full channel is dropped. The next handler
  gets a fresh status writer and a fresh extras map; if it panics, the middleware ends
  with it.
\<close>

definition recordMiddleWare ::
  "int \<Rightarrow> (request \<Rightarrow> world \<Rightarrow> world) \<Rightarrow> request \<Rightarrow> world \<times> stat_record list \<Rightarrow>
     world \<times> stat_record list" where
  "recordMiddleWare elapsed next req = (\<lambda>(w, recordCh).
     let ua0 = Header_Get (reqheader req) ''User-Agent'';
         w1 = next req (w\<lparr>rw := (rw w)\<lparr>status := 0, wrote := 0\<rparr>, extras := Some Map.empty\<rparr>)
     in if panicked w1 then (w1, recordCh)
        else
          let extraInfoMap = (case extras w1 of Some m \<Rightarrow> m | None \<Rightarrow> Map.empty) in
          if status_gate (status (rw w1)) then (w1, recordCh)
          else if \<not> HasPrefix (path req) ''/download/'' then (w1, recordCh)
          else
            let (ua1, a1, f1) = Cut ua0 CHR '' '';
                (ua2, a2, f2) = Cut ua1 CHR ''/'';
                rec = \<lparr>used = elapsed, bytes = wrote (rw w1), ua = ua2,
                       isRange = (extraInfoMap ''skip-ua-count'' \<noteq> None)\<rparr>
            in (w1, if length recordCh < 1024 then recordCh @ [rec] else recordCh))"

section \<open>Example inputs\<close>

text \<open>
  Concrete inputs at which the theorems below are instantiated. \<open>exL\<close> stands in for
  the library: its digests of the empty input are the real ones (\<open>d41d8cd9\<dots>\<close> for
  MD5, \<open>da39a3ee\<dots>\<close> for SHA-1); on other inputs it returns the first bytes of the
  input padded with zeros to the digest's length, which is enough to tell short inputs
  apart. Its \<open>ToLower\<close> lowers the ASCII letters.
\<close>

text \<open>\<open>strings.ToLower\<close> on ASCII text; other bytes are kept.\<close>

definition ascii_lower :: "char \<Rightarrow> char" where
  "ascii_lower c =
     (case map_of (zip ''ABCDEFGHIJKLMNOPQRSTUVWXYZ'' ''abcdefghijklmnopqrstuvwxyz'') c of
        Some l \<Rightarrow> l
      | None \<Rightarrow> c)"

definition md5_of_empty :: string where
  "md5_of_empty =
     [CHR 0xD4, CHR 0x1D, CHR 0x8C, CHR 0xD9, CHR 0x8F, CHR 0x00, CHR 0xB2, CHR 0x04,
      CHR 0xE9, CHR 0x80, CHR 0x09, CHR 0x98, CHR 0xEC, CHR 0xF8, CHR 0x42, CHR 0x7E]"

definition sha1_of_empty :: string where
  "sha1_of_empty =
     [CHR 0xDA, CHR 0x39, CHR 0xA3, CHR 0xEE, CHR 0x5E, CHR 0x6B, CHR 0x4B, CHR 0x0D,
      CHR 0x32, CHR 0x55, CHR 0xBF, CHR 0xEF, CHR 0x95, CHR 0x60, CHR 0x18, CHR 0x90,
      CHR 0xAF, CHR 0xD8, CHR 0x07, CHR 0x09]"

definition exL :: golib where
  "exL = \<lparr>SHA1_Sum = (\<lambda>m. if m = [] then sha1_of_empty
                          else take 20 (m @ replicate 20 (CHR 0x00))),
          MD5_Sum = (\<lambda>m. if m = [] then md5_of_empty
                         else take 16 (m @ replicate 16 (CHR 0x00))),
          StatusText = (\<lambda>c. if c = 404 then ''Not Found''
                            else if c = 502 then ''Bad Gateway'' else []),
          Quote = (\<lambda>s. CHR 0x22 # s @ [CHR 0x22]),
          strings_ToLower = map ascii_lower,
          utils_IsHex = IsHex\<rparr>"

definition ex_rw :: response where
  "ex_rw = \<lparr>header = Map.empty, status = 0, wrote = 0, body = []\<rparr>"

definition ex_world :: world where
  "ex_world = \<lparr>rw = ex_rw, extras = Some Map.empty, hits = 0, hbts = 0, statHits = 0,
               statHbts = 0, trace = [], panicked = False\<rparr>"

text \<open>A handler that answers 200 and nothing else.\<close>

definition ex_next :: "request \<Rightarrow> world \<Rightarrow> world" where
  "ex_next r w = w\<lparr>rw := WriteHeader (rw w) 200\<rparr>"

text \<open>A request for the MD5 digest of the empty input, and one for the digest of
  \<open>hello\<close>, with a header \<open>Range\<close>.\<close>

definition ex_req_empty :: request where
  "ex_req_empty =
     \<lparr>Method = ''GET'', rawpath = ''/download/d41d8cd98f00b204e9800998ecf8427e'',
      path = ''/download/d41d8cd98f00b204e9800998ecf8427e'', rawquery = ''name=a.jar'', forcequery = False,
      query = [''name'' \<mapsto> [''a.jar'']], host = ''example.com'',
      reqheader = Map.empty, no_record_for_keepalive = False\<rparr>"

definition ex_req :: request where
  "ex_req =
     \<lparr>Method = ''GET'', rawpath = ''/download/5d41402abc4b2a76b9719d911017c592'',
      path = ''/download/5d41402abc4b2a76b9719d911017c592'', rawquery = [], forcequery = False,
      query = Map.empty, host = ''example.com'',
      reqheader = [''User-Agent'' \<mapsto> ''curl/7.81.0 extra'', ''Range'' \<mapsto> ''bytes=-500''],
      no_record_for_keepalive = False\<rparr>"

text \<open>The request for the digest of \<open>hello\<close> without any header.\<close>

definition ex_req_plain :: request where
  "ex_req_plain = ex_req\<lparr>reqheader := Map.empty\<rparr>"

text \<open>
  The same requests with a signature: the secret is \<open>abc\<close>, the expiry \<open>zz\<close> in
  base 36 is 1295, and \<open>s\<close> is the encoding of what \<open>exL\<close> returns as digest of
  secret, hash and expiry.
\<close>

definition ex_req_empty_signed :: request where
  "ex_req_empty_signed =
     ex_req_empty\<lparr>rawquery := ''name=a.jar&s=YWJjZDQxZDhjZDk4ZjAwYjIwNGU&e=zz'',
       query := [''name'' \<mapsto> [''a.jar''], ''s'' \<mapsto> [''YWJjZDQxZDhjZDk4ZjAwYjIwNGU''],
                 ''e'' \<mapsto> [''zz'']]\<rparr>"

definition ex_req_signed :: request where
  "ex_req_signed =
     ex_req\<lparr>rawquery := ''s=YWJjNWQ0MTQwMmFiYzRiMmE3NmI&e=zz'',
       query := [''s'' \<mapsto> [''YWJjNWQ0MTQwMmFiYzRiMmE3NmI''], ''e'' \<mapsto> [''zz'']]\<rparr>"

text \<open>
  Backends: one that declines with \<open>(-1, nil)\<close> and writes nothing, one that serves
  five bytes with status 200, one that fails with a not-exist error and one that fails
  with another error.
\<close>

definition sto_miss :: storage where
  "sto_miss = \<lparr>sto_String = ''first'', ServeDownload = (\<lambda>req r h sz. (r, - 1, None))\<rparr>"

definition sto_ok :: storage where
  "sto_ok = \<lparr>sto_String = ''second'',
             ServeDownload = (\<lambda>req r h sz. (Write (WriteHeader r 200) ''hello'', 5, None))\<rparr>"

definition sto_gone :: storage where
  "sto_gone = \<lparr>sto_String = ''gone'',
               ServeDownload = (\<lambda>req r h sz. (r, 0, Some (NotExistError ''file does not exist'')))\<rparr>"

definition sto_broken :: storage where
  "sto_broken = \<lparr>sto_String = ''broken'',
                 ServeDownload = (\<lambda>req r h sz. (r, 0, Some (OtherError ''i/o timeout'')))\<rparr>"

definition ex_cluster :: "storage list \<Rightarrow> Cluster" where
  "ex_cluster stos =
     \<lparr>clusterSecret = ''abc'', shouldEnable = True, storages = stos,
      storageWeights = replicate (length stos) 1,
      storageTotalWeight = of_nat (length stos),
      publicHosts = [''example.com''], publicPort = 443,
      CachedFileSize = (\<lambda>h. (5, True)), DownloadFile = (\<lambda>h. None)\<rparr>"

section \<open>Basic facts about the response writer and the library functions\<close>

lemma status_WriteHeader: "status w = 0 \<Longrightarrow> status (WriteHeader w code) = code"
  by (simp add: WriteHeader_def)

lemma status_Header_Set [simp]: "status (Header_Set w k v) = status w"
  by (simp add: Header_Set_def)

lemma status_Write [simp]: "status (Write w b) = status w"
  by (simp add: Write_def)

lemma status_http_Error: "status w = 0 \<Longrightarrow> status (http_Error w msg code) = code"
  by (simp add: http_Error_def status_WriteHeader)

lemma header_WriteHeader [simp]: "header (WriteHeader w code) = header w"
  by (simp add: WriteHeader_def)

lemma body_WriteHeader [simp]: "body (WriteHeader w code) = body w"
  by (simp add: WriteHeader_def)

lemma wrote_WriteHeader [simp]: "wrote (WriteHeader w code) = wrote w"
  by (simp add: WriteHeader_def)

lemma body_Header_Set [simp]: "body (Header_Set w k v) = body w"
  by (simp add: Header_Set_def)

lemma wrote_Header_Set [simp]: "wrote (Header_Set w k v) = wrote w"
  by (simp add: Header_Set_def)

lemma Header_Get_Set:
  "Header_Get (header (Header_Set w k v)) k' =
     (if k' = k then v else Header_Get (header w) k')"
  by (simp add: Header_Get_def Header_Set_def)

lemma header_Header_Set_other:
  "k' \<noteq> k \<Longrightarrow> header (Header_Set w k v) k' = header w k'"
  by (simp add: Header_Set_def)

lemma digits10_small [simp]: "n < 10 \<Longrightarrow> digits10 n = [''0123456789'' ! n]"
  by (subst digits10.simps) simp

lemma digits10_large [simp]:
  "\<not> n < 10 \<Longrightarrow> digits10 n = digits10 (n div 10) @ [''0123456789'' ! (n mod 10)]"
  by (subst digits10.simps) simp

lemma digits36_small [simp]:
  "n < 36 \<Longrightarrow> digits36 n = [''0123456789abcdefghijklmnopqrstuvwxyz'' ! n]"
  by (subst digits36.simps) simp

lemma digits36_large [simp]:
  "\<not> n < 36 \<Longrightarrow>
     digits36 n = digits36 (n div 36) @ [''0123456789abcdefghijklmnopqrstuvwxyz'' ! (n mod 36)]"
  by (subst digits36.simps) simp

section \<open>Properties of the iterators\<close>

lemma record_calls_apply:
  "cb i s = (d, s') \<Longrightarrow> record_calls cb i (tr, s) = (d, (tr @ [(i, d)], s'))"
  by (simp add: record_calls_def)

lemma for_range_visit: "for_range cb i hi s = visit_until cb [i..hi - 1] s"
proof (induction cb i hi s rule: for_range.induct)
  case (1 cb i hi s)
  show ?case
  proof (cases "i < hi")
    case True
    then have "[i..hi - 1] = i # [i + 1..hi - 1]" by (simp add: upto_rec1)
    with True 1 show ?thesis
      by (subst for_range.simps) (auto split: prod.splits)
  next
    case False
    then show ?thesis by (subst for_range.simps) simp
  qed
qed

lemma visit_until_append:
  "visit_until cb (xs @ ys) s =
     (let (d, s1) = visit_until cb xs s in if d then (True, s1) else visit_until cb ys s1)"
  by (induction xs arbitrary: s) (auto split: prod.splits)

lemma randIntn_range: "0 < n \<Longrightarrow> 0 \<le> randIntn rn n \<and> randIntn rn n < n"
  by (simp add: randIntn_def go_rem_def sgn_if)

lemma find_start_range:
  "0 \<le> i \<Longrightarrow> ps \<noteq> [] \<Longrightarrow>
     0 \<le> find_start ps n i \<and> find_start ps n i < i + int (length ps)"
proof (induction ps n i rule: find_start.induct)
  case (1 n i)
  then show ?case by simp
next
  case (2 p ps n i)
  then show ?case by (cases ps) auto
qed

lemma forEach_visit:
  "0 < leng \<Longrightarrow>
     forEachFromRandomIndex rn leng cb s = visit_until cb (wrap_order (randIntn rn leng) leng) s"
  by (simp add: forEachFromRandomIndex_def wrap_order_def for_range_visit
      visit_until_append Let_def split: prod.splits)

lemma forEachWeighted_visit:
  "poss \<noteq> [] \<Longrightarrow>
     forEachFromRandomIndexWithPossibility rn poss totalw cb s =
       visit_until cb (wrap_order (weighted_start rn poss totalw) (int (length poss))) s"
  by (simp add: forEachFromRandomIndexWithPossibility_def weighted_start_def forEach_visit
      wrap_order_def for_range_visit visit_until_append Let_def split: prod.splits)

lemma weighted_start_range:
  "poss \<noteq> [] \<Longrightarrow>
     0 \<le> weighted_start rn poss totalw \<and> weighted_start rn poss totalw < int (length poss)"
  using find_start_range [of 0 poss] randIntn_range [of "int (length poss)" rn]
  by (simp add: weighted_start_def)

lemma wrap_order_perm:
  "0 \<le> start \<Longrightarrow> start < leng \<Longrightarrow>
     distinct (wrap_order start leng) \<and> set (wrap_order start leng) = {0..<leng}"
  by (auto simp: wrap_order_def)

lemma visit_record:
  "visit_until (record_calls cb) xs (tr0, s) = (d, (tr, s')) \<Longrightarrow>
     visit_until cb xs s = (d, s') \<and>
     (\<exists>tr1 k. tr = tr0 @ tr1 \<and> k \<le> length xs \<and> map fst tr1 = take k xs \<and>
        (\<forall>c \<in> set (butlast tr1). \<not> snd c) \<and>
        (d \<longleftrightarrow> tr1 \<noteq> [] \<and> snd (last tr1)) \<and>
        (\<not> d \<longrightarrow> map fst tr1 = xs))"
proof (induction xs arbitrary: tr0 s)
  case Nil
  then show ?case by simp
next
  case (Cons x xs)
  obtain b s1 where c: "cb x s = (b, s1)" by (cases "cb x s")
  show ?case
  proof (cases b)
    case True
    with Cons.prems c have r: "d" "tr = tr0 @ [(x, True)]" "s' = s1"
      by (simp_all add: record_calls_apply)
    have v: "visit_until cb (x # xs) s = (d, s')" using c True r by simp
    show ?thesis
      apply (rule conjI[OF v])
      apply (rule exI[of _ "[(x, True)]"])
      apply (rule exI[of _ "Suc 0"])
      using r by simp
  next
    case False
    with Cons.prems c
    have "visit_until (record_calls cb) xs (tr0 @ [(x, False)], s1) = (d, (tr, s'))"
      by (simp add: record_calls_apply)
    from Cons.IH[OF this] obtain tr1 k where
      h: "visit_until cb xs s1 = (d, s')" "tr = (tr0 @ [(x, False)]) @ tr1" "k \<le> length xs"
        "map fst tr1 = take k xs" "\<forall>c \<in> set (butlast tr1). \<not> snd c"
        "d \<longleftrightarrow> tr1 \<noteq> [] \<and> snd (last tr1)" "\<not> d \<longrightarrow> map fst tr1 = xs"
      by blast
    have v: "visit_until cb (x # xs) s = (d, s')" using c False h(1) by simp
    show ?thesis
      apply (rule conjI[OF v])
      apply (rule exI[of _ "(x, False) # tr1"])
      apply (rule exI[of _ "Suc k"])
      using h(2-7) by auto
  qed
qed

lemma visit_wrap_walk:
  assumes "visit_until (record_calls cb) (wrap_order start leng) ([], s) = (d, (calls, s'))"
  shows "wrap_walk start leng calls d \<and> visit_until cb (wrap_order start leng) s = (d, s')"
proof -
  from visit_record [OF assms] obtain tr1 k where
    h0: "visit_until cb (wrap_order start leng) s = (d, s')" "calls = [] @ tr1"
      "k \<le> length (wrap_order start leng)" "map fst tr1 = take k (wrap_order start leng)"
      "\<forall>c \<in> set (butlast tr1). \<not> snd c" "d \<longleftrightarrow> tr1 \<noteq> [] \<and> snd (last tr1)"
      "\<not> d \<longrightarrow> map fst tr1 = wrap_order start leng"
    by blast
  then have h: "visit_until cb (wrap_order start leng) s = (d, s')"
      "k \<le> length (wrap_order start leng)" "map fst calls = take k (wrap_order start leng)"
      "\<forall>c \<in> set (butlast calls). \<not> snd c" "d \<longleftrightarrow> calls \<noteq> [] \<and> snd (last calls)"
      "\<not> d \<longrightarrow> map fst calls = wrap_order start leng"
    by simp_all
  from h(2,3) have "length calls = k"
    by (metis length_map length_take min.absorb2)
  with h show ?thesis by (simp add: wrap_walk_def)
qed

text \<open>
  Claim C4. One call of \<open>forEachFromRandomIndex\<close> with a positive length, and one call of
  \<open>forEachFromRandomIndexWithPossibility\<close> with a non-empty weight list (whatever the
  total), picks a start in \<open>[0, length)\<close> that depends on the random sample only; the
  wrap-around order from that start holds every index of \<open>[0, length)\<close> exactly once;
  the callback is invoked on an initial segment of that order, only its last invocation
  can have returned true, the function returns true iff that last invocation did, and
  a false result means that every index was visited.
\<close>

theorem forEach_visits_every_index_once:
  "(0 < leng \<longrightarrow>
      (\<exists>start. 0 \<le> start \<and> start < leng \<and>
         distinct (wrap_order start leng) \<and> set (wrap_order start leng) = {0..<leng} \<and>
         (\<forall>cb s. case forEachFromRandomIndex rn leng (record_calls cb) ([], s) of
            (d, calls, s') \<Rightarrow>
              wrap_walk start leng calls d \<and> forEachFromRandomIndex rn leng cb s = (d, s')))) \<and>
   (poss \<noteq> [] \<longrightarrow>
      (\<exists>start. 0 \<le> start \<and> start < int (length poss) \<and>
         distinct (wrap_order start (int (length poss))) \<and>
         set (wrap_order start (int (length poss))) = {0..<int (length poss)} \<and>
         (\<forall>cb s. case forEachFromRandomIndexWithPossibility rn poss totalw (record_calls cb) ([], s) of
            (d, calls, s') \<Rightarrow>
              wrap_walk start (int (length poss)) calls d \<and>
              forEachFromRandomIndexWithPossibility rn poss totalw cb s = (d, s'))))"
proof (intro conjI impI)
  assume pos: "0 < leng"
  define start where "start = randIntn rn leng"
  have r: "0 \<le> start" "start < leng"
    using randIntn_range [OF pos, of rn] by (simp_all add: start_def)
  have w: "\<forall>cb s. case forEachFromRandomIndex rn leng (record_calls cb) ([], s) of
            (d, calls, s') \<Rightarrow>
              wrap_walk start leng calls d \<and> forEachFromRandomIndex rn leng cb s = (d, s')"
  proof (intro allI)
    fix cb s
    obtain d calls s' where
      e: "forEachFromRandomIndex rn leng (record_calls cb) ([], s) = (d, calls, s')"
      by (cases "forEachFromRandomIndex rn leng (record_calls cb) ([], s)")
    then have "visit_until (record_calls cb) (wrap_order start leng) ([], s) = (d, calls, s')"
      by (simp add: forEach_visit [OF pos] start_def)
    from visit_wrap_walk [OF this] e
    show "case forEachFromRandomIndex rn leng (record_calls cb) ([], s) of
            (d, calls, s') \<Rightarrow>
              wrap_walk start leng calls d \<and> forEachFromRandomIndex rn leng cb s = (d, s')"
      by (simp add: forEach_visit [OF pos] start_def)
  qed
  show "\<exists>start. 0 \<le> start \<and> start < leng \<and>
         distinct (wrap_order start leng) \<and> set (wrap_order start leng) = {0..<leng} \<and>
         (\<forall>cb s. case forEachFromRandomIndex rn leng (record_calls cb) ([], s) of
            (d, calls, s') \<Rightarrow>
              wrap_walk start leng calls d \<and> forEachFromRandomIndex rn leng cb s = (d, s'))"
    using r wrap_order_perm [OF r] w by blast
next
  assume ne: "poss \<noteq> []"
  define start where "start = weighted_start rn poss totalw"
  have r: "0 \<le> start" "start < int (length poss)"
    using weighted_start_range [OF ne, of rn totalw] by (simp_all add: start_def)
  have w: "\<forall>cb s. case forEachFromRandomIndexWithPossibility rn poss totalw (record_calls cb) ([], s) of
            (d, calls, s') \<Rightarrow>
              wrap_walk start (int (length poss)) calls d \<and>
              forEachFromRandomIndexWithPossibility rn poss totalw cb s = (d, s')"
  proof (intro allI)
    fix cb s
    obtain d calls s' where
      e: "forEachFromRandomIndexWithPossibility rn poss totalw (record_calls cb) ([], s) =
            (d, calls, s')"
      by (cases "forEachFromRandomIndexWithPossibility rn poss totalw (record_calls cb) ([], s)")
    then have "visit_until (record_calls cb) (wrap_order start (int (length poss))) ([], s) =
        (d, calls, s')"
      by (simp add: forEachWeighted_visit [OF ne] start_def)
    from visit_wrap_walk [OF this] e
    show "case forEachFromRandomIndexWithPossibility rn poss totalw (record_calls cb) ([], s) of
            (d, calls, s') \<Rightarrow>
              wrap_walk start (int (length poss)) calls d \<and>
              forEachFromRandomIndexWithPossibility rn poss totalw cb s = (d, s')"
      by (simp add: forEachWeighted_visit [OF ne] start_def)
  qed
  show "\<exists>start. 0 \<le> start \<and> start < int (length poss) \<and>
         distinct (wrap_order start (int (length poss))) \<and>
         set (wrap_order start (int (length poss))) = {0..<int (length poss)} \<and>
         (\<forall>cb s. case forEachFromRandomIndexWithPossibility rn poss totalw (record_calls cb) ([], s) of
            (d, calls, s') \<Rightarrow>
              wrap_walk start (int (length poss)) calls d \<and>
              forEachFromRandomIndexWithPossibility rn poss totalw cb s = (d, s'))"
    using r wrap_order_perm [OF r] w by blast
qed

theorem forEach_visits_every_index_once_witness:
  "(0::int) < 3 \<and> [1, 2 :: 64 word] \<noteq> [] \<and>
   (\<exists>start. 0 \<le> start \<and> start < 3 \<and>
         distinct (wrap_order start 3) \<and> set (wrap_order start 3) = {0..<3} \<and>
         (\<forall>cb (s::nat). case forEachFromRandomIndex 5 3 (record_calls cb) ([], s) of
            (d, calls, s') \<Rightarrow>
              wrap_walk start 3 calls d \<and> forEachFromRandomIndex 5 3 cb s = (d, s'))) \<and>
   (\<exists>start. 0 \<le> start \<and> start < int (length [1, 2 :: 64 word]) \<and>
         distinct (wrap_order start (int (length [1, 2 :: 64 word]))) \<and>
         set (wrap_order start (int (length [1, 2 :: 64 word]))) = {0..<int (length [1, 2 :: 64 word])} \<and>
         (\<forall>cb (s::nat). case forEachFromRandomIndexWithPossibility 5 [1, 2] 3 (record_calls cb) ([], s) of
            (d, calls, s') \<Rightarrow>
              wrap_walk start (int (length [1, 2 :: 64 word])) calls d \<and>
              forEachFromRandomIndexWithPossibility 5 [1, 2] 3 cb s = (d, s')))"
  using forEach_visits_every_index_once [of 3 5 "[1, 2]" 3]
  by simp

text \<open>
  Claim C8. With \<open>total = 0\<close> the weighted iterator is the uniform iterator on
  \<open>len(weights)\<close>, on the same random sample; on an empty weight list both return false,
  leave the callback's state as it was and log no invocation.
\<close>

theorem forEachWeighted_zero_total_is_uniform:
  "forEachFromRandomIndexWithPossibility rn poss 0 cb s =
     forEachFromRandomIndex rn (int (length poss)) cb s \<and>
   forEachFromRandomIndexWithPossibility rn [] totalw cb s = (False, s) \<and>
   forEachFromRandomIndex rn (int (length ([] :: 64 word list))) cb s = (False, s) \<and>
   forEachFromRandomIndexWithPossibility rn [] totalw (record_calls cb) ([], s) = (False, [], s) \<and>
   forEachFromRandomIndex rn 0 (record_calls cb) ([], s) = (False, [], s)"
  by (simp add: forEachFromRandomIndexWithPossibility_def forEachFromRandomIndex_def Let_def)

section \<open>The empty hash, the invalid hash and the metric gate\<close>

text \<open>The branch of \<open>handleDownload\<close> for the digests of the empty input.\<close>

lemma handleDownload_empty_hash:
  "hash \<in> set (emptyHashes L) \<Longrightarrow>
   (let w' = handleDownload L cr rn req hash w;
        h = header (rw w');
        name = Get (query req) ''name''
    in (status (rw w) = 0 \<longrightarrow> status (rw w') = 200) \<and>
       Header_Get h ''Content-Length'' = ''0'' \<and>
       Header_Get h ''Content-Type'' = ''application/octet-stream'' \<and>
       Header_Get h ''ETag'' = CHR 0x22 # hash @ [CHR 0x22] \<and>
       Header_Get h ''Cache-Control'' = ''public, max-age=31536000, immutable'' \<and>
       (name \<noteq> [] \<longrightarrow>
          Header_Get h ''Content-Disposition'' = ''attachment; filename='' @ Quote L name) \<and>
       (name = [] \<longrightarrow>
          h ''Content-Disposition'' = header (rw w) ''Content-Disposition'') \<and>
       (\<not> no_record_for_keepalive req \<longrightarrow> hits w' = hits w + 1 \<and> statHits w' = statHits w) \<and>
       (no_record_for_keepalive req \<longrightarrow> statHits w' = statHits w + 1 \<and> hits w' = hits w) \<and>
       hbts w' = hbts w \<and> statHbts w' = statHbts w \<and>
       trace w' = trace w \<and> body (rw w') = body (rw w) \<and> wrote (rw w') = wrote (rw w) \<and>
       w' = handleDownload L cr' rn' req hash w)"
  unfolding handleDownload_def Let_def
  by (simp add: Header_Get_Set header_Header_Set_other status_WriteHeader)

lemma ServeHTTP_download:
  "HasPrefix (rawpath req) ''/download/'' \<Longrightarrow>
   Method req = ''GET'' \<or> Method req = ''HEAD'' \<Longrightarrow>
   hash = drop (length ''/download/'') (rawpath req) \<Longrightarrow>
   utils_IsHex L hash \<Longrightarrow>
   checkQuerySign L now hash (clusterSecret cr) (query req) \<Longrightarrow>
   ServeHTTP L cr rn now others req w =
     handleDownload L cr rn req hash
       (w\<lparr>rw := Header_Set (rw w) ''X-Powered-By'' HeaderXPoweredBy,
          trace := trace w @ [EvCheckSign]\<rparr>)"
  by (auto simp: ServeHTTP_def Let_def)

lemma ServeHTTP_bad_signature:
  "HasPrefix (rawpath req) ''/download/'' \<Longrightarrow>
   Method req = ''GET'' \<or> Method req = ''HEAD'' \<Longrightarrow>
   hash = drop (length ''/download/'') (rawpath req) \<Longrightarrow>
   utils_IsHex L hash \<Longrightarrow>
   \<not> checkQuerySign L now hash (clusterSecret cr) (query req) \<Longrightarrow>
   ServeHTTP L cr rn now others req w =
     w\<lparr>rw := http_Error (Header_Set (rw w) ''X-Powered-By'' HeaderXPoweredBy)
                ''Cannot verify signature'' 403,
       trace := trace w @ [EvCheckSign]\<rparr>"
  by (auto simp: ServeHTTP_def Let_def)

text \<open>
  Claim C5, as the code has it. A GET or HEAD request to \<open>/download/{hash}\<close> reaches
  \<open>handleDownload\<close> only when its query signature verifies. For such a request whose
  hash is the hex digest of the empty input under MD5 or SHA-1 (a hash that
  \<open>utils.IsHex\<close> accepts), the answer is 200 (on a writer whose header is not yet
  written) with \<open>Content-Length: 0\<close>, \<open>Content-Type: application/octet-stream\<close>, the
  hash in quotes as \<open>ETag\<close> and the immutable \<open>Cache-Control\<close>; \<open>Content-Disposition\<close>
  is set to the quoted file name iff the query has a non-empty \<open>name\<close>; exactly one of
  \<open>hits\<close> and \<open>statHits\<close> grows by one, chosen by the keepalive flag of the context,
  and both byte counters stay; the signature check is the only collaborator called, so
  no storage backend is consulted, and no body is written. The result is the same for
  every cluster with the same secret, enabled or not, whatever its backends, and for
  every random sample.
\<close>

theorem empty_hash_short_circuit:
  "HasPrefix (rawpath req) ''/download/'' \<Longrightarrow>
   Method req = ''GET'' \<or> Method req = ''HEAD'' \<Longrightarrow>
   hash = drop (length ''/download/'') (rawpath req) \<Longrightarrow>
   hash \<in> set (emptyHashes L) \<Longrightarrow>
   utils_IsHex L hash \<Longrightarrow>
   checkQuerySign L now hash (clusterSecret cr) (query req) \<Longrightarrow>
   (let w' = ServeHTTP L cr rn now others req w;
        h = header (rw w');
        name = Get (query req) ''name''
    in (status (rw w) = 0 \<longrightarrow> status (rw w') = 200) \<and>
       Header_Get h ''Content-Length'' = ''0'' \<and>
       Header_Get h ''Content-Type'' = ''application/octet-stream'' \<and>
       Header_Get h ''ETag'' = CHR 0x22 # hash @ [CHR 0x22] \<and>
       Header_Get h ''Cache-Control'' = ''public, max-age=31536000, immutable'' \<and>
       (name \<noteq> [] \<longrightarrow>
          Header_Get h ''Content-Disposition'' = ''attachment; filename='' @ Quote L name) \<and>
       (name = [] \<longrightarrow>
          h ''Content-Disposition'' = header (rw w) ''Content-Disposition'') \<and>
       (\<not> no_record_for_keepalive req \<longrightarrow> hits w' = hits w + 1 \<and> statHits w' = statHits w) \<and>
       (no_record_for_keepalive req \<longrightarrow> statHits w' = statHits w + 1 \<and> hits w' = hits w) \<and>
       hbts w' = hbts w \<and> statHbts w' = statHbts w \<and>
       trace w' = trace w @ [EvCheckSign] \<and>
       body (rw w') = body (rw w) \<and> wrote (rw w') = wrote (rw w) \<and>
       (\<forall>cr' rn'. clusterSecret cr' = clusterSecret cr \<longrightarrow>
          ServeHTTP L cr' rn' now others req w = w'))"
proof -
  assume a: "HasPrefix (rawpath req) ''/download/''" "Method req = ''GET'' \<or> Method req = ''HEAD''"
    "hash = drop (length ''/download/'') (rawpath req)" "hash \<in> set (emptyHashes L)"
    "utils_IsHex L hash" "checkQuerySign L now hash (clusterSecret cr) (query req)"
  let ?w0 = "w\<lparr>rw := Header_Set (rw w) ''X-Powered-By'' HeaderXPoweredBy,
               trace := trace w @ [EvCheckSign]\<rparr>"
  have d: "ServeHTTP L cr' rn' now others req w = handleDownload L cr' rn' req hash ?w0"
    if "clusterSecret cr' = clusterSecret cr" for cr' rn'
    using ServeHTTP_download [OF a(1,2,3,5), of now cr' rn' others w] a(6) that by simp
  have i: "handleDownload L cr' rn' req hash ?w0 = handleDownload L cr rn req hash ?w0" for cr' rn'
    using handleDownload_empty_hash [OF a(4), of cr' rn' req ?w0 cr rn]
    by (simp add: Let_def)
  note e = handleDownload_empty_hash [OF a(4), of cr rn req ?w0 cr rn, unfolded Let_def]
  show ?thesis
    unfolding Let_def d [OF refl]
    using e d i
    by (simp add: header_Header_Set_other status_Header_Set)
qed


lemma ex_md5_hash: "''d41d8cd98f00b204e9800998ecf8427e'' \<in> set (emptyHashes exL)"
  by (simp add: emptyHashes_def exL_def md5_of_empty_def EncodeToString_def hexdigit_def)

lemma ex_md5_IsHex: "utils_IsHex exL ''d41d8cd98f00b204e9800998ecf8427e''"
  by (simp add: exL_def IsHex_def)

lemma ex_empty_signed_ok:
  "checkQuerySign exL 1000 ''d41d8cd98f00b204e9800998ecf8427e'' ''abc'' (query ex_req_empty_signed)"
  by (simp add: checkQuerySign_def ex_req_empty_signed_def Get_def ParseInt_def ParseUint_def
      digit_val_def maxUint64_def exL_def encodeURL_def)

theorem empty_hash_short_circuit_witness:
  "HasPrefix (rawpath ex_req_empty_signed) ''/download/'' \<and>
   Method ex_req_empty_signed = ''GET'' \<and>
   ''d41d8cd98f00b204e9800998ecf8427e'' = drop (length ''/download/'') (rawpath ex_req_empty_signed) \<and>
   ''d41d8cd98f00b204e9800998ecf8427e'' \<in> set (emptyHashes exL) \<and>
   utils_IsHex exL ''d41d8cd98f00b204e9800998ecf8427e'' \<and>
   checkQuerySign exL 1000 ''d41d8cd98f00b204e9800998ecf8427e'' (clusterSecret (ex_cluster [sto_ok]))
     (query ex_req_empty_signed) \<and>
   status (rw (ServeHTTP exL (ex_cluster [sto_ok]) 0 1000 ex_next ex_req_empty_signed ex_world)) = 200 \<and>
   hits (ServeHTTP exL (ex_cluster [sto_ok]) 0 1000 ex_next ex_req_empty_signed ex_world) = 1 \<and>
   hbts (ServeHTTP exL (ex_cluster [sto_ok]) 0 1000 ex_next ex_req_empty_signed ex_world) = 0 \<and>
   trace (ServeHTTP exL (ex_cluster [sto_ok]) 0 1000 ex_next ex_req_empty_signed ex_world) =
     [EvCheckSign] \<and>
   ServeHTTP exL ((ex_cluster [])\<lparr>shouldEnable := False\<rparr>) 7 1000 ex_next ex_req_empty_signed ex_world =
     ServeHTTP exL (ex_cluster [sto_ok]) 0 1000 ex_next ex_req_empty_signed ex_world"
proof -
  let ?h = "''d41d8cd98f00b204e9800998ecf8427e''"
  let ?w' = "ServeHTTP exL (ex_cluster [sto_ok]) 0 1000 ex_next ex_req_empty_signed ex_world"
  have a1: "HasPrefix (rawpath ex_req_empty_signed) ''/download/''"
    by (simp add: HasPrefix_def ex_req_empty_signed_def ex_req_empty_def)
  have a2: "Method ex_req_empty_signed = ''GET''"
    by (simp add: ex_req_empty_signed_def ex_req_empty_def)
  then have a2': "Method ex_req_empty_signed = ''GET'' \<or> Method ex_req_empty_signed = ''HEAD''"
    by simp
  have a3: "?h = drop (length ''/download/'') (rawpath ex_req_empty_signed)"
    by (simp add: ex_req_empty_signed_def ex_req_empty_def)
  have sec: "clusterSecret (ex_cluster [sto_ok]) = ''abc''"
    "clusterSecret ((ex_cluster [])\<lparr>shouldEnable := False\<rparr>) = clusterSecret (ex_cluster [sto_ok])"
    by (simp_all add: ex_cluster_def)
  have a6: "checkQuerySign exL 1000 ?h (clusterSecret (ex_cluster [sto_ok])) (query ex_req_empty_signed)"
    using ex_empty_signed_ok by (simp add: sec)
  have w: "status (rw ex_world) = 0" "hits ex_world = 0" "hbts ex_world = 0" "trace ex_world = []"
    "\<not> no_record_for_keepalive ex_req_empty_signed"
    by (simp_all add: ex_world_def ex_rw_def ex_req_empty_signed_def ex_req_empty_def)
  note c = empty_hash_short_circuit [OF a1 a2' a3 ex_md5_hash ex_md5_IsHex a6,
      of 0 ex_next ex_world, unfolded Let_def]
  from c w(1) have c1: "status (rw ?w') = 200" by blast
  from c w(5) have "hits ?w' = hits ex_world + 1" by blast
  then have c2: "hits ?w' = 1" by (simp add: w(2))
  from c have "hbts ?w' = hbts ex_world" by blast
  then have c3: "hbts ?w' = 0" by (simp add: w(3))
  from c have "trace ?w' = trace ex_world @ [EvCheckSign]" by blast
  then have c4: "trace ?w' = [EvCheckSign]" by (simp add: w(4))
  from c sec(2) have c5: "ServeHTTP exL ((ex_cluster [])\<lparr>shouldEnable := False\<rparr>) 7 1000 ex_next
      ex_req_empty_signed ex_world = ?w'" by blast
  show ?thesis by (intro conjI a1 a2 a3 ex_md5_hash ex_md5_IsHex a6 c1 c2 c3 c4 c5)
qed

text \<open>
  The claim as it was stated fails for a request without a valid signature: the request
  for the MD5 digest of the empty input with no \<open>s\<close> and \<open>e\<close> in its query is
  answered 403, and no hit is counted.
\<close>

theorem empty_hash_unsigned_counterexample:
  "HasPrefix (rawpath ex_req_empty) ''/download/'' \<and>
   Method ex_req_empty = ''GET'' \<and>
   drop (length ''/download/'') (rawpath ex_req_empty) \<in> set (emptyHashes exL) \<and>
   status (rw (ServeHTTP exL (ex_cluster [sto_ok]) 0 1000 ex_next ex_req_empty ex_world)) = 403 \<and>
   hits (ServeHTTP exL (ex_cluster [sto_ok]) 0 1000 ex_next ex_req_empty ex_world) = 0 \<and>
   statHits (ServeHTTP exL (ex_cluster [sto_ok]) 0 1000 ex_next ex_req_empty ex_world) = 0"
proof -
  have a1: "HasPrefix (rawpath ex_req_empty) ''/download/''"
    by (simp add: HasPrefix_def ex_req_empty_def)
  have a2: "Method ex_req_empty = ''GET''" by (simp add: ex_req_empty_def)
  have a3: "drop (length ''/download/'') (rawpath ex_req_empty) = ''d41d8cd98f00b204e9800998ecf8427e''"
    by (simp add: ex_req_empty_def)
  have ns: "\<not> checkQuerySign exL 1000 ''d41d8cd98f00b204e9800998ecf8427e''
      (clusterSecret (ex_cluster [sto_ok])) (query ex_req_empty)"
    by (simp add: checkQuerySign_def ex_req_empty_def Get_def)
  have a2': "Method ex_req_empty = ''GET'' \<or> Method ex_req_empty = ''HEAD''" using a2 by simp
  have r: "ServeHTTP exL (ex_cluster [sto_ok]) 0 1000 ex_next ex_req_empty ex_world =
      ex_world\<lparr>rw := http_Error (Header_Set (rw ex_world) ''X-Powered-By'' HeaderXPoweredBy)
                   ''Cannot verify signature'' 403,
                trace := trace ex_world @ [EvCheckSign]\<rparr>"
    by (rule ServeHTTP_bad_signature [OF a1 a2' a3 [symmetric] ex_md5_IsHex ns])
  have s: "status (rw (ServeHTTP exL (ex_cluster [sto_ok]) 0 1000 ex_next ex_req_empty ex_world)) = 403"
    unfolding r by (simp add: status_http_Error ex_world_def ex_rw_def)
  have h: "hits (ServeHTTP exL (ex_cluster [sto_ok]) 0 1000 ex_next ex_req_empty ex_world) = 0"
    "statHits (ServeHTTP exL (ex_cluster [sto_ok]) 0 1000 ex_next ex_req_empty ex_world) = 0"
    unfolding r by (simp_all add: ex_world_def)
  show ?thesis using a1 a2 a3 ex_md5_hash s h by simp
qed

text \<open>
  Claim C6. A GET or HEAD request to \<open>/download/{hash}\<close> whose hash is not a hex string
  of length 32 or 40 is answered with 404 and the message that the hash is not valid;
  neither the signature check nor any other collaborator is called. \<open>utils.IsHex\<close> is
  taken as the specification describes a valid hash.
\<close>

theorem invalid_hash_is_404:
  "utils_IsHex L = IsHex \<Longrightarrow>
   HasPrefix (rawpath req) ''/download/'' \<Longrightarrow>
   Method req = ''GET'' \<or> Method req = ''HEAD'' \<Longrightarrow>
   hash = drop (length ''/download/'') (rawpath req) \<Longrightarrow>
   \<not> ((length hash = 32 \<or> length hash = 40) \<and> (\<forall>c \<in> set hash. c \<in> set ''0123456789abcdef'')) \<Longrightarrow>
   ServeHTTP L cr rn now others req w =
     w\<lparr>rw := http_Error (Header_Set (rw w) ''X-Powered-By'' HeaderXPoweredBy)
                (hash @ '' is not a valid hash'') 404\<rparr> \<and>
   (status (rw w) = 0 \<longrightarrow> status (rw (ServeHTTP L cr rn now others req w)) = 404) \<and>
   trace (ServeHTTP L cr rn now others req w) = trace w"
  by (auto simp: ServeHTTP_def IsHex_def Let_def status_http_Error)

theorem invalid_hash_is_404_witness:
  "utils_IsHex exL = IsHex \<and>
   HasPrefix (rawpath (ex_req\<lparr>rawpath := ''/download/xyz''\<rparr>)) ''/download/'' \<and>
   Method (ex_req\<lparr>rawpath := ''/download/xyz''\<rparr>) = ''GET'' \<and>
   status (rw (ServeHTTP exL (ex_cluster [sto_ok]) 0 0 (\<lambda>r w. w) (ex_req\<lparr>rawpath := ''/download/xyz''\<rparr>) ex_world)) = 404 \<and>
   trace (ServeHTTP exL (ex_cluster [sto_ok]) 0 0 (\<lambda>r w. w) (ex_req\<lparr>rawpath := ''/download/xyz''\<rparr>) ex_world) = []"
proof -
  let ?req = "ex_req\<lparr>rawpath := ''/download/xyz''\<rparr>"
  have a: "utils_IsHex exL = IsHex" by (simp add: exL_def)
  have b: "HasPrefix (rawpath ?req) ''/download/''" by (simp add: HasPrefix_def)
  have c: "Method ?req = ''GET'' \<or> Method ?req = ''HEAD''" by (simp add: ex_req_def)
  have d: "''xyz'' = drop (length ''/download/'') (rawpath ?req)" by simp
  have e: "\<not> ((length ''xyz'' = 32 \<or> length ''xyz'' = 40) \<and>
               (\<forall>c \<in> set ''xyz''. c \<in> set ''0123456789abcdef''))" by simp
  have w: "status (rw ex_world) = 0" "trace ex_world = []"
    by (simp_all add: ex_world_def ex_rw_def)
  have c': "Method ?req = ''GET''" by (simp add: ex_req_def)
  note r = invalid_hash_is_404 [OF a b c d e, of "ex_cluster [sto_ok]" 0 0 "\<lambda>r w. w" ex_world]
  from r w(1) have r1: "status (rw (ServeHTTP exL (ex_cluster [sto_ok]) 0 0 (\<lambda>r w. w) ?req ex_world)) = 404"
    by blast
  from r have "trace (ServeHTTP exL (ex_cluster [sto_ok]) 0 0 (\<lambda>r w. w) ?req ex_world) = trace ex_world"
    by blast
  then have r2: "trace (ServeHTTP exL (ex_cluster [sto_ok]) 0 0 (\<lambda>r w. w) ?req ex_world) = []"
    by (simp add: w(2))
  show ?thesis by (intro conjI a b c' r1 r2)
qed


text \<open>
  Claim C7. The guard \<open>status < 200 && 400 <= status\<close> holds for no status. So, for a
  request whose path begins with \<open>/download/\<close> and whose handler returns, whatever
  status was captured, the middleware sends the record \<open>{used, bytes, ua, isRange}\<close>:
  it is appended to the channel unless the channel holds 1024 records, and then it is
  dropped.
\<close>

theorem record_gate_never_taken:
  "\<not> status_gate st \<and>
   (HasPrefix (path req) ''/download/'' \<longrightarrow>
    w1 = next req (w\<lparr>rw := (rw w)\<lparr>status := 0, wrote := 0\<rparr>, extras := Some Map.empty\<rparr>) \<longrightarrow>
    \<not> panicked w1 \<longrightarrow>
    recordMiddleWare elapsed next req (w, ch) =
      (w1,
       if length ch < 1024
       then ch @ [\<lparr>used = elapsed, bytes = wrote (rw w1),
                   ua = fst (Cut (fst (Cut (Header_Get (reqheader req) ''User-Agent'') CHR '' '')) CHR ''/''),
                   isRange = (case extras w1 of Some m \<Rightarrow> m ''skip-ua-count'' \<noteq> None | None \<Rightarrow> False)\<rparr>]
       else ch))"
  by (auto simp: status_gate_def recordMiddleWare_def Let_def split: prod.splits option.splits)

theorem record_gate_never_taken_witness:
  "HasPrefix (path ex_req) ''/download/'' \<and>
   \<not> panicked (ex_world\<lparr>rw := http_Error ex_rw ''no'' 404\<rparr>) \<and>
   recordMiddleWare 1000 (\<lambda>r w. w\<lparr>rw := http_Error (rw w) ''no'' 404\<rparr>) ex_req (ex_world, []) =
     (ex_world\<lparr>rw := http_Error ex_rw ''no'' 404\<rparr>,
      [\<lparr>used = 1000, bytes = 3, ua = ''curl'', isRange = False\<rparr>])"
proof -
  let ?next = "\<lambda>(r::request) w. w\<lparr>rw := http_Error (rw w) ''no'' 404\<rparr>"
  let ?w1 = "ex_world\<lparr>rw := http_Error ex_rw ''no'' 404\<rparr>"
  have a: "HasPrefix (path ex_req) ''/download/''" by (simp add: HasPrefix_def ex_req_def)
  have b: "?w1 = ?next ex_req (ex_world\<lparr>rw := (rw ex_world)\<lparr>status := 0, wrote := 0\<rparr>,
                   extras := Some Map.empty\<rparr>)"
    by (simp add: ex_world_def ex_rw_def)
  have c: "\<not> panicked ?w1" by (simp add: ex_world_def)
  have d: "wrote (rw ?w1) = 3" by (simp add: http_Error_def Write_def ex_rw_def)
  have e: "fst (Cut (fst (Cut (Header_Get (reqheader ex_req) ''User-Agent'') CHR '' '')) CHR ''/'') = ''curl''"
    by (simp add: Header_Get_def ex_req_def Cut_def)
  have f: "extras ?w1 = Some Map.empty" by (simp add: ex_world_def)
  from record_gate_never_taken [of _ ex_req ?w1 ?next ex_world 1000 "[]"] a b c
  have "recordMiddleWare 1000 ?next ex_req (ex_world, []) =
      (?w1, [\<lparr>used = 1000, bytes = wrote (rw ?w1),
                   ua = fst (Cut (fst (Cut (Header_Get (reqheader ex_req) ''User-Agent'') CHR '' '')) CHR ''/''),
                   isRange = (case extras ?w1 of Some m \<Rightarrow> m ''skip-ua-count'' \<noteq> None | None \<Rightarrow> False)\<rparr>])"
    by simp
  then show ?thesis using a c d e f by simp
qed

section \<open>The redirect to the public host\<close>

















section \<open>The storage walk of the dispatcher\<close>

lemma panicked_annotateRange [simp]: "panicked (annotateRange req w) = panicked w"
  by (simp add: annotateRange_def SetAccessInfo_def Let_def split: prod.splits)

lemma panicked_before_walk [simp]: "panicked (before_walk req hash ok w) = panicked w"
  by (simp add: before_walk_def Let_def)

lemma handleDownload_walk:
  assumes "hash \<notin> set (emptyHashes L)" "shouldEnable cr"
    "CachedFileSize cr hash = (fsize, ok)" "ok \<or> DownloadFile cr hash = None"
  shows "handleDownload L cr rn req hash w0 =
     (case forEachFromRandomIndexWithPossibility rn (storageWeights cr) (storageTotalWeight cr)
             (download_cb cr req hash fsize (\<not> no_record_for_keepalive req))
             (None, None, before_walk req hash ok w0) of
        (d, sto, err, w4) \<Rightarrow>
          if panicked w4 then w4
          else
            let w5 = (case sto of
                        Some s \<Rightarrow> SetAccessInfo w4 ''storage'' (sto_String s)
                      | None \<Rightarrow> w4)
            in case err of None \<Rightarrow> w5 | Some e \<Rightarrow> respondError L w5 e)"
  using assms
  by (auto simp: handleDownload_def before_walk_def Let_def split: prod.splits)

lemma download_cb_nil_error:
  assumes "0 \<le> i" "i < int (length (storages cr))"
    "ServeDownload (storages cr ! nat i) req (rw w) hash fsize = (rw1, sz, None)"
  shows "download_cb cr req hash fsize k i (sto, err, w) =
     (True, Some (storages cr ! nat i), err,
      count_hit k sz (w\<lparr>rw := rw1, trace := trace w @ [EvServeDownload (nat i)]\<rparr>))"
  using assms by (simp add: download_cb_def count_hit_def Let_def)

lemma download_cb_error:
  assumes "0 \<le> i" "i < int (length (storages cr))"
    "ServeDownload (storages cr ! nat i) req (rw w) hash fsize = (rw1, sz, Some e)"
  shows "download_cb cr req hash fsize k i (sto, err, w) =
     (False, Some (storages cr ! nat i), Some e,
      w\<lparr>rw := rw1, trace := trace w @ [EvServeDownload (nat i)]\<rparr>)"
  using assms by (simp add: download_cb_def Let_def)

lemma wrap_order_Cons:
  "0 \<le> s \<Longrightarrow> s < n \<Longrightarrow> wrap_order s n = s # ([s + 1..n - 1] @ [0..s - 1])"
  by (simp add: wrap_order_def upto_rec1)

lemma handleDownload_first_nil_error:
  assumes h: "hash \<notin> set (emptyHashes L)" "shouldEnable cr"
    "CachedFileSize cr hash = (fsize, ok)" "ok \<or> DownloadFile cr hash = None"
    and np: "\<not> panicked w0"
    and ne: "storageWeights cr \<noteq> []"
    and i0: "i0 = nat (weighted_start rn (storageWeights cr) (storageTotalWeight cr))"
    and ir: "i0 < length (storages cr)"
    and sd: "ServeDownload (storages cr ! i0) req (rw (before_walk req hash ok w0)) hash fsize =
               (rw1, sz, None)"
  shows "handleDownload L cr rn req hash w0 =
     SetAccessInfo
       (count_hit (\<not> no_record_for_keepalive req) sz
          ((before_walk req hash ok w0)
             \<lparr>rw := rw1, trace := trace (before_walk req hash ok w0) @ [EvServeDownload i0]\<rparr>))
       ''storage'' (sto_String (storages cr ! i0))"
proof -
  let ?s = "weighted_start rn (storageWeights cr) (storageTotalWeight cr)"
  let ?n = "int (length (storageWeights cr))"
  let ?cb = "download_cb cr req hash fsize (\<not> no_record_for_keepalive req)"
  let ?w3 = "before_walk req hash ok w0"
  have r: "0 \<le> ?s" "?s < ?n" using weighted_start_range [OF ne] by simp_all
  have n: "nat ?s = i0" using i0 by simp
  have c: "?cb ?s (None, None, ?w3) =
     (True, Some (storages cr ! i0), None,
      count_hit (\<not> no_record_for_keepalive req) sz
        (?w3\<lparr>rw := rw1, trace := trace ?w3 @ [EvServeDownload i0]\<rparr>))"
    using download_cb_nil_error [of ?s cr req ?w3 hash fsize rw1 sz] r ir sd n by simp
  have "forEachFromRandomIndexWithPossibility rn (storageWeights cr) (storageTotalWeight cr)
          ?cb (None, None, ?w3) =
     (True, Some (storages cr ! i0), None,
      count_hit (\<not> no_record_for_keepalive req) sz
        (?w3\<lparr>rw := rw1, trace := trace ?w3 @ [EvServeDownload i0]\<rparr>))"
    by (simp add: forEachWeighted_visit [OF ne] wrap_order_Cons [OF r] c)
  then show ?thesis
    using np by (simp add: handleDownload_walk [OF h] count_hit_def)
qed


lemma all_fail_walk:
  assumes "xs \<noteq> []"
    "\<forall>i \<in> set xs. 0 \<le> i \<and> i < int (length (storages cr)) \<and>
       (\<forall>r. snd (snd (ServeDownload (storages cr ! nat i) req r hash fsize)) = Some (errs ! nat i))"
  shows "\<exists>r5. visit_until (download_cb cr req hash fsize k) xs (sto, err, w) =
     (False, Some (storages cr ! nat (last xs)), Some (errs ! nat (last xs)),
      w\<lparr>rw := r5, trace := trace w @ map (\<lambda>i. EvServeDownload (nat i)) xs\<rparr>)"
  using assms
proof (induction xs arbitrary: sto err w)
  case Nil
  then show ?case by simp
next
  case (Cons x xs)
  have "snd (snd (ServeDownload (storages cr ! nat x) req (rw w) hash fsize)) = Some (errs ! nat x)"
    using Cons.prems(2) by simp
  then obtain r1 sz where sd: "ServeDownload (storages cr ! nat x) req (rw w) hash fsize =
      (r1, sz, Some (errs ! nat x))"
    by (metis prod.collapse)
  have x: "0 \<le> x" "x < int (length (storages cr))" using Cons.prems(2) by simp_all
  note c = download_cb_error [OF x sd, of k sto err]
  show ?case
  proof (cases "xs = []")
    case True
    show ?thesis
      by (rule exI [of _ r1]) (simp add: True c)
  next
    case False
    from Cons.IH [OF False, of "Some (storages cr ! nat x)" "Some (errs ! nat x)"
        "w\<lparr>rw := r1, trace := trace w @ [EvServeDownload (nat x)]\<rparr>"] Cons.prems(2)
    obtain r5 where "visit_until (download_cb cr req hash fsize k) xs
        (Some (storages cr ! nat x), Some (errs ! nat x),
         w\<lparr>rw := r1, trace := trace w @ [EvServeDownload (nat x)]\<rparr>) =
       (False, Some (storages cr ! nat (last xs)), Some (errs ! nat (last xs)),
        w\<lparr>rw := r1, trace := trace w @ [EvServeDownload (nat x)]\<rparr>
         \<lparr>rw := r5, trace := trace (w\<lparr>rw := r1, trace := trace w @ [EvServeDownload (nat x)]\<rparr>) @
              map (\<lambda>i. EvServeDownload (nat i)) xs\<rparr>)"
      by auto
    then show ?thesis
      by (intro exI [of _ r5]) (simp add: c False)
  qed
qed

lemma last_upto: "i \<le> j \<Longrightarrow> last [i..j] = j"
  by (simp add: upto_rec2)

lemma last_wrap_order:
  "0 \<le> s \<Longrightarrow> s < n \<Longrightarrow> last (wrap_order s n) = (if s = 0 then n - 1 else s - 1)"
  by (simp add: wrap_order_def last_upto)

lemma status_respondError:
  "status (rw w) = 0 \<Longrightarrow> status (rw (respondError L w e)) = error_status e"
  by (cases e) (simp_all add: respondError_def error_status_def status_http_Error)

lemma handleDownload_all_fail:
  assumes h: "hash \<notin> set (emptyHashes L)" "shouldEnable cr"
    "CachedFileSize cr hash = (fsize, ok)" "ok \<or> DownloadFile cr hash = None"
    and np: "\<not> panicked w0"
    and ne: "storageWeights cr \<noteq> []"
    and len: "length (storages cr) = length (storageWeights cr)"
    and s: "s = weighted_start rn (storageWeights cr) (storageTotalWeight cr)"
    and k: "k = nat (if s = 0 then int (length (storages cr)) - 1 else s - 1)"
    and fail: "\<forall>i < length (storages cr). \<forall>r.
        snd (snd (ServeDownload (storages cr ! i) req r hash fsize)) = Some (errs ! i)"
  shows "\<exists>r5. handleDownload L cr rn req hash w0 =
     respondError L
       (SetAccessInfo
          ((before_walk req hash ok w0)
             \<lparr>rw := r5,
              trace := trace (before_walk req hash ok w0) @
                map (\<lambda>i. EvServeDownload (nat i)) (wrap_order s (int (length (storages cr))))\<rparr>)
          ''storage'' (sto_String (storages cr ! k)))
       (errs ! k)"
proof -
  let ?n = "int (length (storages cr))"
  let ?cb = "download_cb cr req hash fsize (\<not> no_record_for_keepalive req)"
  let ?w3 = "before_walk req hash ok w0"
  have r: "0 \<le> s" "s < ?n" using weighted_start_range [OF ne] s len by simp_all
  have xs: "wrap_order s ?n \<noteq> []" using wrap_order_Cons [OF r] by simp
  have all: "\<forall>i \<in> set (wrap_order s ?n). 0 \<le> i \<and> i < ?n \<and>
       (\<forall>r. snd (snd (ServeDownload (storages cr ! nat i) req r hash fsize)) = Some (errs ! nat i))"
    using wrap_order_perm [OF r] fail by auto
  have l: "nat (last (wrap_order s ?n)) = k" using last_wrap_order [OF r] k by simp
  from all_fail_walk [OF xs all, of "\<not> no_record_for_keepalive req" None None ?w3]
  obtain r5 where v: "visit_until ?cb (wrap_order s ?n) (None, None, ?w3) =
     (False, Some (storages cr ! k), Some (errs ! k),
      ?w3\<lparr>rw := r5, trace := trace ?w3 @ map (\<lambda>i. EvServeDownload (nat i)) (wrap_order s ?n)\<rparr>)"
    unfolding l by blast
  have "forEachFromRandomIndexWithPossibility rn (storageWeights cr) (storageTotalWeight cr)
          ?cb (None, None, ?w3) =
     (False, Some (storages cr ! k), Some (errs ! k),
      ?w3\<lparr>rw := r5, trace := trace ?w3 @ map (\<lambda>i. EvServeDownload (nat i)) (wrap_order s ?n)\<rparr>)"
    using v by (simp add: forEachWeighted_visit [OF ne] s len)
  then have "handleDownload L cr rn req hash w0 =
     respondError L
       (SetAccessInfo
          (?w3\<lparr>rw := r5,
              trace := trace ?w3 @ map (\<lambda>i. EvServeDownload (nat i)) (wrap_order s ?n)\<rparr>)
          ''storage'' (sto_String (storages cr ! k)))
       (errs ! k)"
    using np by (simp add: handleDownload_walk [OF h])
  then show ?thesis by blast
qed


lemma extras_count_hit [simp]: "extras (count_hit k sz w) = extras w"
  by (simp add: count_hit_def)

lemma trace_count_hit [simp]: "trace (count_hit k sz w) = trace w"
  by (simp add: count_hit_def)

lemma panicked_count_hit [simp]: "panicked (count_hit k sz w) = panicked w"
  by (simp add: count_hit_def)

lemma count_hit_negative: "sz <s 0 \<Longrightarrow> count_hit k sz w = w"
  by (simp add: count_hit_def word_sle_eq word_sless_alt)

lemma respondError_fields [simp]:
  "extras (respondError L w e) = extras w" "trace (respondError L w e) = trace w"
  "hits (respondError L w e) = hits w" "hbts (respondError L w e) = hbts w"
  "statHits (respondError L w e) = statHits w" "statHbts (respondError L w e) = statHbts w"
  by (cases e; simp add: respondError_def)+

lemma fail_then_nil_walk:
  assumes "\<forall>x \<in> set xs. 0 \<le> x \<and> x < int (length (storages cr)) \<and>
       (\<forall>r. snd (snd (ServeDownload (storages cr ! nat x) req r hash fsize)) = Some (errs ! nat x))"
    "0 \<le> i" "i < int (length (storages cr))"
    "\<forall>r. \<exists>r'. ServeDownload (storages cr ! nat i) req r hash fsize = (r', sz, None)"
  shows "\<exists>r5 e. visit_until (download_cb cr req hash fsize k) (xs @ i # ys) (sto, err, w) =
     (True, Some (storages cr ! nat i), e,
      count_hit k sz (w\<lparr>rw := r5, trace := trace w @ map (\<lambda>i. EvServeDownload (nat i)) (xs @ [i])\<rparr>))"
  using assms(1)
proof (induction xs arbitrary: sto err w)
  case Nil
  from assms(4) obtain r' where sd: "ServeDownload (storages cr ! nat i) req (rw w) hash fsize = (r', sz, None)"
    by blast
  show ?case
    apply (rule exI [of _ r'])
    apply (rule exI [of _ err])
    using download_cb_nil_error [OF assms(2,3) sd, of k sto err] by simp
next
  case (Cons x xs)
  have "snd (snd (ServeDownload (storages cr ! nat x) req (rw w) hash fsize)) = Some (errs ! nat x)"
    using Cons.prems by simp
  then obtain r1 sz1 where sd: "ServeDownload (storages cr ! nat x) req (rw w) hash fsize =
      (r1, sz1, Some (errs ! nat x))"
    by (metis prod.collapse)
  have x: "0 \<le> x" "x < int (length (storages cr))" using Cons.prems by simp_all
  note c = download_cb_error [OF x sd, of k sto err]
  have p: "\<forall>x \<in> set xs. 0 \<le> x \<and> x < int (length (storages cr)) \<and>
       (\<forall>r. snd (snd (ServeDownload (storages cr ! nat x) req r hash fsize)) = Some (errs ! nat x))"
    using Cons.prems by simp
  from Cons.IH [OF p, of "Some (storages cr ! nat x)" "Some (errs ! nat x)"
      "w\<lparr>rw := r1, trace := trace w @ [EvServeDownload (nat x)]\<rparr>"]
  obtain r5 e where "visit_until (download_cb cr req hash fsize k) (xs @ i # ys)
        (Some (storages cr ! nat x), Some (errs ! nat x),
         w\<lparr>rw := r1, trace := trace w @ [EvServeDownload (nat x)]\<rparr>) =
     (True, Some (storages cr ! nat i), e,
      count_hit k sz (w\<lparr>rw := r1, trace := trace w @ [EvServeDownload (nat x)]\<rparr>
         \<lparr>rw := r5, trace := trace (w\<lparr>rw := r1, trace := trace w @ [EvServeDownload (nat x)]\<rparr>) @
              map (\<lambda>i. EvServeDownload (nat i)) (xs @ [i])\<rparr>))"
    by blast
  then show ?case
    apply (intro exI [of _ r5] exI [of _ e])
    by (simp add: c)
qed

lemma handleDownload_fail_then_nil:
  assumes h: "hash \<notin> set (emptyHashes L)" "shouldEnable cr"
    "CachedFileSize cr hash = (fsize, ok)" "ok \<or> DownloadFile cr hash = None"
    and np: "\<not> panicked w0"
    and ne: "storageWeights cr \<noteq> []"
    and len: "length (storages cr) = length (storageWeights cr)"
    and ord: "wrap_order (weighted_start rn (storageWeights cr) (storageTotalWeight cr))
                (int (length (storageWeights cr))) = xs @ i # ys"
    and fail: "\<forall>x \<in> set xs. \<forall>r.
        snd (snd (ServeDownload (storages cr ! nat x) req r hash fsize)) = Some (errs ! nat x)"
    and nil: "\<forall>r. \<exists>r'. ServeDownload (storages cr ! nat i) req r hash fsize = (r', sz, None)"
  shows "trace (handleDownload L cr rn req hash w0) =
           trace (before_walk req hash ok w0) @ map (\<lambda>i. EvServeDownload (nat i)) (xs @ [i]) \<and>
         extras (handleDownload L cr rn req hash w0) =
           map_option (\<lambda>m. m(''storage'' \<mapsto> sto_String (storages cr ! nat i)))
             (extras (before_walk req hash ok w0)) \<and>
         (sz <s 0 \<longrightarrow>
            hits (handleDownload L cr rn req hash w0) = hits w0 \<and>
            hbts (handleDownload L cr rn req hash w0) = hbts w0 \<and>
            statHits (handleDownload L cr rn req hash w0) = statHits w0 \<and>
            statHbts (handleDownload L cr rn req hash w0) = statHbts w0)"
proof -
  let ?s = "weighted_start rn (storageWeights cr) (storageTotalWeight cr)"
  let ?n = "int (length (storageWeights cr))"
  let ?cb = "download_cb cr req hash fsize (\<not> no_record_for_keepalive req)"
  let ?w3 = "before_walk req hash ok w0"
  have r: "0 \<le> ?s" "?s < ?n" using weighted_start_range [OF ne] by simp_all
  have mem: "set (xs @ i # ys) = {0..<?n}" using wrap_order_perm [OF r] ord by simp
  have i: "0 \<le> i" "i < int (length (storages cr))" using mem len by auto
  have all: "\<forall>x \<in> set xs. 0 \<le> x \<and> x < int (length (storages cr)) \<and>
       (\<forall>r. snd (snd (ServeDownload (storages cr ! nat x) req r hash fsize)) = Some (errs ! nat x))"
    using mem len fail by auto
  from fail_then_nil_walk [OF all i nil, of "\<not> no_record_for_keepalive req" ys None None ?w3]
  obtain r5 e where v: "visit_until ?cb (xs @ i # ys) (None, None, ?w3) =
     (True, Some (storages cr ! nat i), e,
      count_hit (\<not> no_record_for_keepalive req) sz
        (?w3\<lparr>rw := r5, trace := trace ?w3 @ map (\<lambda>i. EvServeDownload (nat i)) (xs @ [i])\<rparr>))"
    by blast
  have f: "forEachFromRandomIndexWithPossibility rn (storageWeights cr) (storageTotalWeight cr)
          ?cb (None, None, ?w3) =
     (True, Some (storages cr ! nat i), e,
      count_hit (\<not> no_record_for_keepalive req) sz
        (?w3\<lparr>rw := r5, trace := trace ?w3 @ map (\<lambda>i. EvServeDownload (nat i)) (xs @ [i])\<rparr>))"
    using v by (simp add: forEachWeighted_visit [OF ne] ord)
  have c: "hits ?w3 = hits w0" "hbts ?w3 = hbts w0" "statHits ?w3 = statHits w0"
    "statHbts ?w3 = statHbts w0"
    by (simp_all add: before_walk_def annotateRange_def SetAccessInfo_def Let_def split: prod.splits)
  show ?thesis
    using np c
    by (cases e)
      (simp_all add: handleDownload_walk [OF h] f SetAccessInfo_def count_hit_negative)
qed

text \<open>
  Claim C1, as the code has it. When \<open>ServeDownload\<close> of a backend returns a negative
  byte count and no error, the callback of the walk returns true with the counters and
  the remembered error as they were: the walk stops at that backend. So, in a walk whose
  first backends all return errors and whose next backend \<open>j\<close> declines in this way,
  the backends called are those and \<open>j\<close>, none after it; the extras map gets
  \<open>storage\<close> = the name of \<open>j\<close>; no counter changes. And when the backend at the
  start index returns no error, it is the only backend called, it is the one recorded as
  \<open>storage\<close>, and the counters grow iff its byte count is not negative: of two
  backends, the second is recorded only when the walk starts at the second.
\<close>

theorem soft_miss_ends_walk:
  "(0 \<le> i \<and> i < int (length (storages cr)) \<and>
    ServeDownload (storages cr ! nat i) req (rw w) hash fsize = (rw1, sz, None) \<and> sz <s 0 \<longrightarrow>
      download_cb cr req hash fsize k i (sto, err, w) =
        (True, Some (storages cr ! nat i), err,
         w\<lparr>rw := rw1, trace := trace w @ [EvServeDownload (nat i)]\<rparr>)) \<and>
   (hash \<notin> set (emptyHashes L) \<and> shouldEnable cr \<and> CachedFileSize cr hash = (fsize, ok) \<and>
    (ok \<or> DownloadFile cr hash = None) \<and> \<not> panicked w0 \<and> storageWeights cr \<noteq> [] \<and>
    length (storages cr) = length (storageWeights cr) \<longrightarrow>
      (wrap_order (weighted_start rn (storageWeights cr) (storageTotalWeight cr))
         (int (length (storageWeights cr))) = xs @ j # ys \<and>
       (\<forall>x \<in> set xs. \<forall>r.
          snd (snd (ServeDownload (storages cr ! nat x) req r hash fsize)) = Some (errs ! nat x)) \<and>
       (\<forall>r. \<exists>r'. ServeDownload (storages cr ! nat j) req r hash fsize = (r', sz', None)) \<and>
       sz' <s 0 \<longrightarrow>
         trace (handleDownload L cr rn req hash w0) =
           trace (before_walk req hash ok w0) @ map (\<lambda>i. EvServeDownload (nat i)) (xs @ [j]) \<and>
         extras (handleDownload L cr rn req hash w0) =
           map_option (\<lambda>m. m(''storage'' \<mapsto> sto_String (storages cr ! nat j)))
             (extras (before_walk req hash ok w0)) \<and>
         hits (handleDownload L cr rn req hash w0) = hits w0 \<and>
         hbts (handleDownload L cr rn req hash w0) = hbts w0 \<and>
         statHits (handleDownload L cr rn req hash w0) = statHits w0 \<and>
         statHbts (handleDownload L cr rn req hash w0) = statHbts w0) \<and>
      (i0 = nat (weighted_start rn (storageWeights cr) (storageTotalWeight cr)) \<and>
       ServeDownload (storages cr ! i0) req (rw (before_walk req hash ok w0)) hash fsize =
         (rw0, sz0, None) \<longrightarrow>
         handleDownload L cr rn req hash w0 =
           SetAccessInfo
             (count_hit (\<not> no_record_for_keepalive req) sz0
                ((before_walk req hash ok w0)
                   \<lparr>rw := rw0,
                    trace := trace (before_walk req hash ok w0) @ [EvServeDownload i0]\<rparr>))
             ''storage'' (sto_String (storages cr ! i0))))"
proof (intro conjI impI, goal_cases)
  case 1
  then show ?case
    using download_cb_nil_error [of i cr req w hash fsize rw1 sz k sto err]
    by (simp add: count_hit_negative)
next
  case 2
  then show ?case
    using handleDownload_fail_then_nil [of hash L cr fsize ok w0 rn xs j ys req errs sz']
    by blast
next
  case 3
  then show ?case
    using handleDownload_fail_then_nil [of hash L cr fsize ok w0 rn xs j ys req errs sz']
    by blast
next
  case 4
  then show ?case
    using handleDownload_fail_then_nil [of hash L cr fsize ok w0 rn xs j ys req errs sz']
    by blast
next
  case 5
  then show ?case
    using handleDownload_fail_then_nil [of hash L cr fsize ok w0 rn xs j ys req errs sz']
    by blast
next
  case 6
  then show ?case
    using handleDownload_fail_then_nil [of hash L cr fsize ok w0 rn xs j ys req errs sz']
    by blast
next
  case 7
  then show ?case
    using handleDownload_fail_then_nil [of hash L cr fsize ok w0 rn xs j ys req errs sz']
    by blast
next
  case 8
  have "i0 < length (storages cr)"
    using 8 weighted_start_range [of "storageWeights cr" rn "storageTotalWeight cr"] by auto
  with 8 show ?case
    using handleDownload_first_nil_error [of hash L cr fsize ok w0 i0 rn req rw0 sz0]
    by blast
qed

lemma ex_hash_nonempty: "''5d41402abc4b2a76b9719d911017c592'' \<notin> set (emptyHashes exL)"
  by (simp add: emptyHashes_def exL_def md5_of_empty_def sha1_of_empty_def EncodeToString_def
      hexdigit_def)

lemma ex_before_walk:
  "before_walk ex_req_plain h True ex_world =
     ex_world\<lparr>rw := Header_Set ex_rw ''X-Bmclapi-Hash'' h, trace := [EvCachedFileSize]\<rparr>"
  by (simp add: before_walk_def annotateRange_def Header_Get_def ex_req_plain_def ex_req_def
      ex_world_def)

lemma ex_bw_fields:
  "extras (before_walk ex_req_plain h True ex_world) = Some Map.empty"
  "hits (before_walk ex_req_plain h True ex_world) = 0"
  "hbts (before_walk ex_req_plain h True ex_world) = 0"
  "trace (before_walk ex_req_plain h True ex_world) = [EvCachedFileSize]"
  "rw (before_walk ex_req_plain h True ex_world) = Header_Set ex_rw ''X-Bmclapi-Hash'' h"
  unfolding ex_before_walk by (simp_all add: ex_world_def)

lemma ex_cluster_fields:
  "shouldEnable (ex_cluster stos)" "CachedFileSize (ex_cluster stos) h = (5, True)"
  "storages (ex_cluster stos) = stos"
  "storageWeights (ex_cluster stos) = replicate (length stos) 1"
  "storageTotalWeight (ex_cluster stos) = of_nat (length stos)"
  by (simp_all add: ex_cluster_def)

lemma ex_starts:
  "weighted_start 0 [1, 1] 2 = 0" "weighted_start 3 [1, 1] 2 = 1" "weighted_start 0 [1, 1, 1] 3 = 0"
  by (simp_all add: weighted_start_def randIntn_def go_rem_def)

lemma ex_orders: "wrap_order 0 2 = [0, 1]" "wrap_order 0 3 = [0, 1, 2]" "wrap_order 1 2 = [1, 0]"
  by (simp_all add: wrap_order_def upto_rec1)


lemma neg_one_sless: "(- 1 :: 64 word) <s 0"
  by (simp add: word_sless_alt)

lemma five_sle: "(0 :: 64 word) \<le>s 5"
  by (simp add: word_sle_eq)

theorem soft_miss_ends_walk_witness:
  "((0::int) \<le> 0 \<and> 0 < int (length (storages (ex_cluster [sto_miss, sto_ok]))) \<and>
    ServeDownload (storages (ex_cluster [sto_miss, sto_ok]) ! nat 0) ex_req_plain (rw ex_world)
        ''5d41402abc4b2a76b9719d911017c592'' 5 = (rw ex_world, - 1, None) \<and>
    (- 1 :: 64 word) <s 0) \<and>
   download_cb (ex_cluster [sto_miss, sto_ok]) ex_req_plain ''5d41402abc4b2a76b9719d911017c592'' 5
       True 0 (None, None, ex_world) =
     (True, Some (storages (ex_cluster [sto_miss, sto_ok]) ! nat 0), None,
      ex_world\<lparr>rw := rw ex_world, trace := trace ex_world @ [EvServeDownload (nat 0)]\<rparr>) \<and>
   (''5d41402abc4b2a76b9719d911017c592'' \<notin> set (emptyHashes exL) \<and>
    shouldEnable (ex_cluster [sto_gone, sto_miss, sto_ok]) \<and>
    CachedFileSize (ex_cluster [sto_gone, sto_miss, sto_ok]) ''5d41402abc4b2a76b9719d911017c592'' =
      (5, True) \<and>
    \<not> panicked ex_world \<and> storageWeights (ex_cluster [sto_gone, sto_miss, sto_ok]) \<noteq> [] \<and>
    length (storages (ex_cluster [sto_gone, sto_miss, sto_ok])) =
      length (storageWeights (ex_cluster [sto_gone, sto_miss, sto_ok]))) \<and>
   (wrap_order (weighted_start 0 (storageWeights (ex_cluster [sto_gone, sto_miss, sto_ok]))
                  (storageTotalWeight (ex_cluster [sto_gone, sto_miss, sto_ok])))
       (int (length (storageWeights (ex_cluster [sto_gone, sto_miss, sto_ok])))) = [0] @ 1 # [2] \<and>
    (\<forall>r.
        snd (snd (ServeDownload (storages (ex_cluster [sto_gone, sto_miss, sto_ok]) ! nat 0)
                    ex_req_plain r ''5d41402abc4b2a76b9719d911017c592'' 5)) =
          Some ([NotExistError ''file does not exist''] ! nat 0)) \<and>
    (\<forall>r. \<exists>r'. ServeDownload (storages (ex_cluster [sto_gone, sto_miss, sto_ok]) ! nat 1)
                   ex_req_plain r ''5d41402abc4b2a76b9719d911017c592'' 5 = (r', - 1, None))) \<and>
   trace (handleDownload exL (ex_cluster [sto_gone, sto_miss, sto_ok]) 0 ex_req_plain
            ''5d41402abc4b2a76b9719d911017c592'' ex_world) =
     [EvCachedFileSize, EvServeDownload 0, EvServeDownload 1] \<and>
   extras (handleDownload exL (ex_cluster [sto_gone, sto_miss, sto_ok]) 0 ex_req_plain
            ''5d41402abc4b2a76b9719d911017c592'' ex_world) = Some [''storage'' \<mapsto> ''first''] \<and>
   hits (handleDownload exL (ex_cluster [sto_gone, sto_miss, sto_ok]) 0 ex_req_plain
            ''5d41402abc4b2a76b9719d911017c592'' ex_world) = 0 \<and>
   extras (handleDownload exL (ex_cluster [sto_miss, sto_ok]) 3 ex_req_plain
            ''5d41402abc4b2a76b9719d911017c592'' ex_world) = Some [''storage'' \<mapsto> ''second''] \<and>
   hits (handleDownload exL (ex_cluster [sto_miss, sto_ok]) 3 ex_req_plain
            ''5d41402abc4b2a76b9719d911017c592'' ex_world) = 1 \<and>
   hbts (handleDownload exL (ex_cluster [sto_miss, sto_ok]) 3 ex_req_plain
            ''5d41402abc4b2a76b9719d911017c592'' ex_world) = 5 \<and>
   status (rw (handleDownload exL (ex_cluster [sto_miss, sto_ok]) 3 ex_req_plain
            ''5d41402abc4b2a76b9719d911017c592'' ex_world)) = 200"
proof -
  let ?h = "''5d41402abc4b2a76b9719d911017c592''"
  let ?c2 = "ex_cluster [sto_miss, sto_ok]"
  let ?c3 = "ex_cluster [sto_gone, sto_miss, sto_ok]"
  let ?bw = "before_walk ex_req_plain ?h True ex_world"
  have a: "(0::int) \<le> 0 \<and> 0 < int (length (storages ?c2)) \<and>
    ServeDownload (storages ?c2 ! nat 0) ex_req_plain (rw ex_world) ?h 5 = (rw ex_world, - 1, None) \<and>
    (- 1 :: 64 word) <s 0"
    by (simp add: ex_cluster_fields sto_miss_def neg_one_sless)
  from a soft_miss_ends_walk [of 0 ?c2 ex_req_plain ex_world ?h 5 "rw ex_world" "- 1" True None None]
  have a': "download_cb ?c2 ex_req_plain ?h 5 True 0 (None, None, ex_world) =
     (True, Some (storages ?c2 ! nat 0), None,
      ex_world\<lparr>rw := rw ex_world, trace := trace ex_world @ [EvServeDownload (nat 0)]\<rparr>)"
    by blast
  have g: "?h \<notin> set (emptyHashes exL) \<and> shouldEnable ?c3 \<and> CachedFileSize ?c3 ?h = (5, True) \<and>
    \<not> panicked ex_world \<and> storageWeights ?c3 \<noteq> [] \<and>
    length (storages ?c3) = length (storageWeights ?c3)"
    by (simp add: ex_hash_nonempty ex_cluster_fields ex_world_def)
  have g2: "wrap_order (weighted_start 0 (storageWeights ?c3) (storageTotalWeight ?c3))
       (int (length (storageWeights ?c3))) = [0] @ 1 # [2] \<and>
    (\<forall>x \<in> set [0]. \<forall>r.
        snd (snd (ServeDownload (storages ?c3 ! nat x) ex_req_plain r ?h 5)) =
          Some ([NotExistError ''file does not exist''] ! nat x)) \<and>
    (\<forall>r. \<exists>r'. ServeDownload (storages ?c3 ! nat 1) ex_req_plain r ?h 5 = (r', - 1, None))"
    by (simp add: ex_cluster_fields ex_starts ex_orders sto_gone_def sto_miss_def)
  note t3 = soft_miss_ends_walk [of _ ?c3 ex_req_plain _ ?h 5 _ _ _ _ _ exL True ex_world 0
      "[0]" 1 "[2]" "[NotExistError ''file does not exist'']" "- 1"]
  from t3 g g2 neg_one_sless
  have g': "trace (handleDownload exL ?c3 0 ex_req_plain ?h ex_world) =
        trace ?bw @ map (\<lambda>i. EvServeDownload (nat i)) ([0] @ [1]) \<and>
      extras (handleDownload exL ?c3 0 ex_req_plain ?h ex_world) =
        map_option (\<lambda>m. m(''storage'' \<mapsto> sto_String (storages ?c3 ! nat 1))) (extras ?bw) \<and>
      hits (handleDownload exL ?c3 0 ex_req_plain ?h ex_world) = hits ex_world"
    by blast
  have nm: "sto_String (storages ?c3 ! Suc 0) = ''first''"
    by (simp add: ex_cluster_fields sto_miss_def)
  have hw: "hits ex_world = 0" by (simp add: ex_world_def)
  from g' have g3: "trace (handleDownload exL ?c3 0 ex_req_plain ?h ex_world) =
       [EvCachedFileSize, EvServeDownload 0, EvServeDownload 1]"
    "extras (handleDownload exL ?c3 0 ex_req_plain ?h ex_world) = Some [''storage'' \<mapsto> ''first'']"
    "hits (handleDownload exL ?c3 0 ex_req_plain ?h ex_world) = 0"
    by (simp_all add: ex_bw_fields nm hw)
  have b: "?h \<notin> set (emptyHashes exL) \<and> shouldEnable ?c2 \<and> CachedFileSize ?c2 ?h = (5, True) \<and>
    (True \<or> DownloadFile ?c2 ?h = None) \<and>
    \<not> panicked ex_world \<and> storageWeights ?c2 \<noteq> [] \<and>
    length (storages ?c2) = length (storageWeights ?c2)"
    by (simp add: ex_hash_nonempty ex_cluster_fields ex_world_def)
  have b2: "1 = nat (weighted_start 3 (storageWeights ?c2) (storageTotalWeight ?c2)) \<and>
     ServeDownload (storages ?c2 ! 1) ex_req_plain (rw ?bw) ?h 5 =
       (Write (WriteHeader (rw ?bw) 200) ''hello'', 5, None)"
    by (simp add: ex_cluster_fields ex_starts sto_ok_def)
  note t2 = soft_miss_ends_walk [of _ ?c2 ex_req_plain _ ?h 5 _ _ _ _ _ exL True ex_world 3
      _ _ _ _ _ 1 "Write (WriteHeader (rw ?bw) 200) ''hello''" 5]
  from t2 b b2
  have b': "handleDownload exL ?c2 3 ex_req_plain ?h ex_world =
           SetAccessInfo
             (count_hit (\<not> no_record_for_keepalive ex_req_plain) 5
                (?bw\<lparr>rw := Write (WriteHeader (rw ?bw) 200) ''hello'',
                    trace := trace ?bw @ [EvServeDownload 1]\<rparr>))
             ''storage'' (sto_String (storages ?c2 ! 1))"
    by blast
  have nk: "\<not> no_record_for_keepalive ex_req_plain"
    by (simp add: ex_req_plain_def ex_req_def)
  have nm2: "sto_String (storages ?c2 ! 1) = ''second''"
    by (simp add: ex_cluster_fields sto_ok_def)
  have ch: "count_hit (\<not> no_record_for_keepalive ex_req_plain) 5 w = w\<lparr>hits := hits w + 1, hbts := hbts w + 5\<rparr>"
    for w by (simp add: count_hit_def five_sle nk)
  have st: "status (Write (WriteHeader (rw ?bw) 200) ''hello'') = 200"
    by (simp add: ex_bw_fields WriteHeader_def ex_rw_def)
  have b3: "extras (handleDownload exL ?c2 3 ex_req_plain ?h ex_world) = Some [''storage'' \<mapsto> ''second'']"
    "hits (handleDownload exL ?c2 3 ex_req_plain ?h ex_world) = 1"
    "hbts (handleDownload exL ?c2 3 ex_req_plain ?h ex_world) = 5"
    "status (rw (handleDownload exL ?c2 3 ex_req_plain ?h ex_world)) = 200"
    unfolding b' ch nm2
    by (simp_all add: SetAccessInfo_def ex_bw_fields WriteHeader_def ex_rw_def)
  have g0: "(?h \<notin> set (emptyHashes exL) \<and> shouldEnable ?c3 \<and> CachedFileSize ?c3 ?h = (5, True) \<and>
    \<not> panicked ex_world \<and> storageWeights ?c3 \<noteq> [] \<and>
    length (storages ?c3) = length (storageWeights ?c3))"
    using g by simp
  have g2': "wrap_order (weighted_start 0 (storageWeights ?c3) (storageTotalWeight ?c3))
       (int (length (storageWeights ?c3))) = [0] @ 1 # [2] \<and>
    (\<forall>r. snd (snd (ServeDownload (storages ?c3 ! nat 0) ex_req_plain r ?h 5)) =
          Some ([NotExistError ''file does not exist''] ! nat 0)) \<and>
    (\<forall>r. \<exists>r'. ServeDownload (storages ?c3 ! nat 1) ex_req_plain r ?h 5 = (r', - 1, None))"
    using g2 by simp
  show ?thesis
    by (intro conjI a a' g0 g2' g3 b3)
qed

text \<open>
  The claim as it was stated fails for the scenario it names. Of two backends with the
  weights 1 and 1, the first declines with \<open>(-1, nil)\<close> and the second would serve 5
  bytes; with the sample 0 the walk starts at the first backend and ends there: the
  second backend is never called, \<open>storage\<close> is the first backend's name, no header
  is written and no hit is counted.
\<close>

theorem soft_miss_ends_walk_counterexample:
  "storages (ex_cluster [sto_miss, sto_ok]) = [sto_miss, sto_ok] \<and>
   ServeDownload sto_miss ex_req_plain
       (Header_Set ex_rw ''X-Bmclapi-Hash'' ''5d41402abc4b2a76b9719d911017c592'')
       ''5d41402abc4b2a76b9719d911017c592'' 5 =
     (Header_Set ex_rw ''X-Bmclapi-Hash'' ''5d41402abc4b2a76b9719d911017c592'', - 1, None) \<and>
   fst (snd (ServeDownload sto_ok ex_req_plain
       (Header_Set ex_rw ''X-Bmclapi-Hash'' ''5d41402abc4b2a76b9719d911017c592'')
       ''5d41402abc4b2a76b9719d911017c592'' 5)) = 5 \<and>
   snd (snd (ServeDownload sto_ok ex_req_plain
       (Header_Set ex_rw ''X-Bmclapi-Hash'' ''5d41402abc4b2a76b9719d911017c592'')
       ''5d41402abc4b2a76b9719d911017c592'' 5)) = None \<and>
   extras (handleDownload exL (ex_cluster [sto_miss, sto_ok]) 0 ex_req_plain
             ''5d41402abc4b2a76b9719d911017c592'' ex_world) = Some [''storage'' \<mapsto> ''first''] \<and>
   trace (handleDownload exL (ex_cluster [sto_miss, sto_ok]) 0 ex_req_plain
             ''5d41402abc4b2a76b9719d911017c592'' ex_world) =
     [EvCachedFileSize, EvServeDownload 0] \<and>
   status (rw (handleDownload exL (ex_cluster [sto_miss, sto_ok]) 0 ex_req_plain
             ''5d41402abc4b2a76b9719d911017c592'' ex_world)) = 0 \<and>
   hits (handleDownload exL (ex_cluster [sto_miss, sto_ok]) 0 ex_req_plain
             ''5d41402abc4b2a76b9719d911017c592'' ex_world) = 0"
proof -
  let ?h = "''5d41402abc4b2a76b9719d911017c592''"
  let ?cr = "ex_cluster [sto_miss, sto_ok]"
  let ?r = "Header_Set ex_rw ''X-Bmclapi-Hash'' ?h"
  have a: "storages ?cr = [sto_miss, sto_ok]" by (simp add: ex_cluster_fields)
  have b: "ServeDownload sto_miss ex_req_plain ?r ?h 5 = (?r, - 1, None)"
    by (simp add: sto_miss_def)
  have c: "fst (snd (ServeDownload sto_ok ex_req_plain ?r ?h 5)) = 5"
    "snd (snd (ServeDownload sto_ok ex_req_plain ?r ?h 5)) = None"
    by (simp_all add: sto_ok_def)
  have sd: "ServeDownload (storages ?cr ! 0) ex_req_plain
      (rw (before_walk ex_req_plain ?h True ex_world)) ?h 5 = (?r, - 1, None)"
    by (simp add: ex_bw_fields ex_cluster_fields sto_miss_def)
  have r: "handleDownload exL ?cr 0 ex_req_plain ?h ex_world =
     SetAccessInfo
       (count_hit (\<not> no_record_for_keepalive ex_req_plain) (- 1)
          ((before_walk ex_req_plain ?h True ex_world)
             \<lparr>rw := ?r, trace := trace (before_walk ex_req_plain ?h True ex_world) @ [EvServeDownload 0]\<rparr>))
       ''storage'' (sto_String (storages ?cr ! 0))"
    by (rule handleDownload_first_nil_error [OF ex_hash_nonempty _ _ _ _ _ _ _ sd])
      (simp_all add: ex_cluster_fields ex_starts ex_world_def)
  have e: "extras (handleDownload exL ?cr 0 ex_req_plain ?h ex_world) = Some [''storage'' \<mapsto> ''first'']"
    unfolding r by (simp add: SetAccessInfo_def ex_bw_fields ex_cluster_fields sto_miss_def)
  have t: "trace (handleDownload exL ?cr 0 ex_req_plain ?h ex_world) =
      [EvCachedFileSize, EvServeDownload 0]"
    unfolding r by (simp add: SetAccessInfo_def ex_bw_fields)
  have s: "status (rw (handleDownload exL ?cr 0 ex_req_plain ?h ex_world)) = 0"
    unfolding r
    by (simp add: SetAccessInfo_def count_hit_negative [OF neg_one_sless] ex_rw_def)
  have h: "hits (handleDownload exL ?cr 0 ex_req_plain ?h ex_world) = 0"
    unfolding r
    by (simp add: SetAccessInfo_def count_hit_negative [OF neg_one_sless] ex_bw_fields)
  show ?thesis by (intro conjI a b c e t s h)
qed


text \<open>
  Claim C2, as the code has it. Each error of a backend replaces the one remembered. When
  every backend returns an error, the walk visits them all in wrap-around order and the
  error response is written from the error of the last backend visited, the one before
  the start index: 404 for a not-exist error, 502 for an \<open>HTTPStatusError\<close>, 500
  otherwise (on a writer whose header is not yet written). When the backend at the start
  index returns no error, the walk ends there and no error response is written.
\<close>

theorem last_error_is_surfaced:
  "(hash \<notin> set (emptyHashes L) \<and> shouldEnable cr \<and> CachedFileSize cr hash = (fsize, ok) \<and>
    (ok \<or> DownloadFile cr hash = None) \<and> \<not> panicked w0 \<and> storageWeights cr \<noteq> [] \<and>
    length (storages cr) = length (storageWeights cr) \<and>
    s = weighted_start rn (storageWeights cr) (storageTotalWeight cr) \<longrightarrow>
      (k = nat (if s = 0 then int (length (storages cr)) - 1 else s - 1) \<and>
       (\<forall>i < length (storages cr). \<forall>r.
          snd (snd (ServeDownload (storages cr ! i) req r hash fsize)) = Some (errs ! i)) \<longrightarrow>
         (\<exists>r5. handleDownload L cr rn req hash w0 =
            respondError L
              (SetAccessInfo
                 ((before_walk req hash ok w0)
                    \<lparr>rw := r5,
                     trace := trace (before_walk req hash ok w0) @
                       map (\<lambda>i. EvServeDownload (nat i)) (wrap_order s (int (length (storages cr))))\<rparr>)
                 ''storage'' (sto_String (storages cr ! k)))
              (errs ! k))) \<and>
      (ServeDownload (storages cr ! nat s) req (rw (before_walk req hash ok w0)) hash fsize =
         (rw0, sz0, None) \<longrightarrow>
         handleDownload L cr rn req hash w0 =
           SetAccessInfo
             (count_hit (\<not> no_record_for_keepalive req) sz0
                ((before_walk req hash ok w0)
                   \<lparr>rw := rw0,
                    trace := trace (before_walk req hash ok w0) @ [EvServeDownload (nat s)]\<rparr>))
             ''storage'' (sto_String (storages cr ! nat s)))) \<and>
   (status (rw w) = 0 \<longrightarrow>
      status (rw (respondError L w e)) =
        (case e of NotExistError m \<Rightarrow> 404 | HTTPStatusError c \<Rightarrow> 502 | OtherError m \<Rightarrow> 500))"
proof (intro conjI impI, goal_cases)
  case 1
  then show ?case
    using handleDownload_all_fail [of hash L cr fsize ok w0 s rn k req errs]
    by blast
next
  case 2
  have "nat s < length (storages cr)"
    using 2 weighted_start_range [of "storageWeights cr" rn "storageTotalWeight cr"] by auto
  with 2 show ?case
    using handleDownload_first_nil_error [of hash L cr fsize ok w0 "nat s" rn req rw0 sz0]
    by blast
next
  case 3
  then show ?case using status_respondError [of w L e] by (simp add: error_status_def)
qed

lemma ex_all_fail:
  "\<forall>i < length (storages (ex_cluster [sto_gone, sto_broken])). \<forall>r.
      snd (snd (ServeDownload (storages (ex_cluster [sto_gone, sto_broken]) ! i) ex_req_plain r
                  ''5d41402abc4b2a76b9719d911017c592'' 5)) =
        Some ([NotExistError ''file does not exist'', OtherError ''i/o timeout''] ! i)"
  by (simp add: ex_cluster_fields less_Suc_eq sto_gone_def sto_broken_def)

lemma ex_np: "\<not> panicked ex_world"
  by (simp add: ex_world_def)

lemma ex_walk_fail_exact:
  "handleDownload exL (ex_cluster [sto_gone, sto_broken]) 0 ex_req_plain
           ''5d41402abc4b2a76b9719d911017c592'' ex_world =
     respondError exL
       (SetAccessInfo
          ((before_walk ex_req_plain ''5d41402abc4b2a76b9719d911017c592'' True ex_world)
             \<lparr>trace := [EvCachedFileSize, EvServeDownload 0, EvServeDownload 1]\<rparr>)
          ''storage'' ''broken'')
       (OtherError ''i/o timeout'')"
  by (simp add: handleDownload_walk [OF ex_hash_nonempty, of _ 5 True] ex_cluster_fields
      forEachWeighted_visit ex_starts ex_orders download_cb_def sto_gone_def sto_broken_def
      ex_bw_fields Let_def ex_np)

lemma ex_nk: "\<not> no_record_for_keepalive ex_req_plain"
  by (simp add: ex_req_plain_def ex_req_def)

lemma ex_walk_stale_exact:
  "handleDownload exL (ex_cluster [sto_gone, sto_ok]) 0 ex_req_plain
           ''5d41402abc4b2a76b9719d911017c592'' ex_world =
     respondError exL
       (SetAccessInfo
          ((before_walk ex_req_plain ''5d41402abc4b2a76b9719d911017c592'' True ex_world)
             \<lparr>rw := Write (WriteHeader (Header_Set ex_rw ''X-Bmclapi-Hash''
                                          ''5d41402abc4b2a76b9719d911017c592'') 200) ''hello'',
              trace := [EvCachedFileSize, EvServeDownload 0, EvServeDownload 1],
              hits := 1, hbts := 5\<rparr>)
          ''storage'' ''second'')
       (NotExistError ''file does not exist'')"
  by (simp add: handleDownload_walk [OF ex_hash_nonempty, of _ 5 True] ex_cluster_fields
      forEachWeighted_visit ex_starts ex_orders download_cb_def sto_gone_def sto_ok_def
      ex_bw_fields Let_def ex_np five_sle ex_nk)

theorem last_error_is_surfaced_witness:
  "(''5d41402abc4b2a76b9719d911017c592'' \<notin> set (emptyHashes exL) \<and>
    shouldEnable (ex_cluster [sto_gone, sto_broken]) \<and>
    CachedFileSize (ex_cluster [sto_gone, sto_broken]) ''5d41402abc4b2a76b9719d911017c592'' = (5, True) \<and>
    \<not> panicked ex_world \<and> storageWeights (ex_cluster [sto_gone, sto_broken]) \<noteq> [] \<and>
    length (storages (ex_cluster [sto_gone, sto_broken])) =
      length (storageWeights (ex_cluster [sto_gone, sto_broken])) \<and>
    0 = weighted_start 0 (storageWeights (ex_cluster [sto_gone, sto_broken]))
          (storageTotalWeight (ex_cluster [sto_gone, sto_broken]))) \<and>
   (1 = nat (if (0::int) = 0 then int (length (storages (ex_cluster [sto_gone, sto_broken]))) - 1
             else 0 - 1) \<and>
    (\<forall>r.
       snd (snd (ServeDownload (storages (ex_cluster [sto_gone, sto_broken]) ! 0) ex_req_plain r
                   ''5d41402abc4b2a76b9719d911017c592'' 5)) =
         Some ([NotExistError ''file does not exist'', OtherError ''i/o timeout''] ! 0)) \<and>
    (\<forall>r.
       snd (snd (ServeDownload (storages (ex_cluster [sto_gone, sto_broken]) ! 1) ex_req_plain r
                   ''5d41402abc4b2a76b9719d911017c592'' 5)) =
         Some ([NotExistError ''file does not exist'', OtherError ''i/o timeout''] ! 1))) \<and>
   (\<exists>r5. handleDownload exL (ex_cluster [sto_gone, sto_broken]) 0 ex_req_plain
           ''5d41402abc4b2a76b9719d911017c592'' ex_world =
      respondError exL
        (SetAccessInfo
           ((before_walk ex_req_plain ''5d41402abc4b2a76b9719d911017c592'' True ex_world)
              \<lparr>rw := r5,
               trace := trace (before_walk ex_req_plain ''5d41402abc4b2a76b9719d911017c592'' True ex_world) @
                 map (\<lambda>i. EvServeDownload (nat i))
                   (wrap_order 0 (int (length (storages (ex_cluster [sto_gone, sto_broken])))))\<rparr>)
           ''storage'' (sto_String (storages (ex_cluster [sto_gone, sto_broken]) ! 1)))
        ([NotExistError ''file does not exist'', OtherError ''i/o timeout''] ! 1)) \<and>
   (1 = weighted_start 3 (storageWeights (ex_cluster [sto_miss, sto_ok]))
          (storageTotalWeight (ex_cluster [sto_miss, sto_ok])) \<and>
    ServeDownload (storages (ex_cluster [sto_miss, sto_ok]) ! nat 1) ex_req_plain
        (rw (before_walk ex_req_plain ''5d41402abc4b2a76b9719d911017c592'' True ex_world))
        ''5d41402abc4b2a76b9719d911017c592'' 5 =
      (Write (WriteHeader
                (rw (before_walk ex_req_plain ''5d41402abc4b2a76b9719d911017c592'' True ex_world))
                200) ''hello'', 5, None)) \<and>
   handleDownload exL (ex_cluster [sto_miss, sto_ok]) 3 ex_req_plain
       ''5d41402abc4b2a76b9719d911017c592'' ex_world =
     SetAccessInfo
       (count_hit (\<not> no_record_for_keepalive ex_req_plain) 5
          ((before_walk ex_req_plain ''5d41402abc4b2a76b9719d911017c592'' True ex_world)
             \<lparr>rw := Write (WriteHeader
                (rw (before_walk ex_req_plain ''5d41402abc4b2a76b9719d911017c592'' True ex_world))
                200) ''hello'',
              trace := trace (before_walk ex_req_plain ''5d41402abc4b2a76b9719d911017c592'' True ex_world) @
                [EvServeDownload (nat 1)]\<rparr>))
       ''storage'' (sto_String (storages (ex_cluster [sto_miss, sto_ok]) ! nat 1)) \<and>
   status (rw ex_world) = 0 \<and>
   status (rw (respondError exL ex_world (OtherError ''i/o timeout''))) = 500"
proof -
  let ?h = "''5d41402abc4b2a76b9719d911017c592''"
  let ?cf = "ex_cluster [sto_gone, sto_broken]"
  let ?c2 = "ex_cluster [sto_miss, sto_ok]"
  let ?bw = "before_walk ex_req_plain ?h True ex_world"
  let ?errs = "[NotExistError ''file does not exist'', OtherError ''i/o timeout'']"
  have h1: "?h \<notin> set (emptyHashes exL) \<and> shouldEnable ?cf \<and> CachedFileSize ?cf ?h = (5, True) \<and>
    \<not> panicked ex_world \<and> storageWeights ?cf \<noteq> [] \<and>
    length (storages ?cf) = length (storageWeights ?cf) \<and>
    0 = weighted_start 0 (storageWeights ?cf) (storageTotalWeight ?cf)"
    by (simp add: ex_hash_nonempty ex_cluster_fields ex_np ex_starts)
  have h2: "1 = nat (if (0::int) = 0 then int (length (storages ?cf)) - 1 else 0 - 1) \<and>
    (\<forall>i < length (storages ?cf). \<forall>r.
       snd (snd (ServeDownload (storages ?cf ! i) ex_req_plain r ?h 5)) = Some (?errs ! i))"
    using ex_all_fail by (simp add: ex_cluster_fields)
  note t1 = last_error_is_surfaced [of ?h exL ?cf 5 True ex_world 0 0 1 ex_req_plain ?errs]
  from t1 h1 h2
  have c1: "\<exists>r5. handleDownload exL ?cf 0 ex_req_plain ?h ex_world =
      respondError exL
        (SetAccessInfo
           (?bw\<lparr>rw := r5,
               trace := trace ?bw @
                 map (\<lambda>i. EvServeDownload (nat i)) (wrap_order 0 (int (length (storages ?cf))))\<rparr>)
           ''storage'' (sto_String (storages ?cf ! 1)))
        (?errs ! 1)"
    by blast
  have g1: "?h \<notin> set (emptyHashes exL) \<and> shouldEnable ?c2 \<and> CachedFileSize ?c2 ?h = (5, True) \<and>
    (True \<or> DownloadFile ?c2 ?h = None) \<and>
    \<not> panicked ex_world \<and> storageWeights ?c2 \<noteq> [] \<and>
    length (storages ?c2) = length (storageWeights ?c2) \<and>
    1 = weighted_start 3 (storageWeights ?c2) (storageTotalWeight ?c2)"
    by (simp add: ex_hash_nonempty ex_cluster_fields ex_np ex_starts)
  then have g1': "1 = weighted_start 3 (storageWeights ?c2) (storageTotalWeight ?c2)" by blast
  have g2: "ServeDownload (storages ?c2 ! nat 1) ex_req_plain (rw ?bw) ?h 5 =
      (Write (WriteHeader (rw ?bw) 200) ''hello'', 5, None)"
    by (simp add: ex_cluster_fields sto_ok_def)
  note t2 = last_error_is_surfaced [of ?h exL ?c2 5 True ex_world 1 3 _ ex_req_plain _
      "Write (WriteHeader (rw ?bw) 200) ''hello''" 5]
  from t2 g1 g2
  have c2: "handleDownload exL ?c2 3 ex_req_plain ?h ex_world =
     SetAccessInfo
       (count_hit (\<not> no_record_for_keepalive ex_req_plain) 5
          (?bw\<lparr>rw := Write (WriteHeader (rw ?bw) 200) ''hello'',
               trace := trace ?bw @ [EvServeDownload (nat 1)]\<rparr>))
       ''storage'' (sto_String (storages ?c2 ! nat 1))"
    by blast
  have s0: "status (rw ex_world) = 0" by (simp add: ex_world_def ex_rw_def)
  note t3 = last_error_is_surfaced [of _ exL _ _ _ _ _ _ _ _ _ _ _ ex_world "OtherError ''i/o timeout''"]
  from t3 s0
  have "status (rw (respondError exL ex_world (OtherError ''i/o timeout''))) =
      (case OtherError ''i/o timeout'' of NotExistError m \<Rightarrow> 404 | HTTPStatusError c \<Rightarrow> 502
       | OtherError m \<Rightarrow> 500)"
    by blast
  then have c3: "status (rw (respondError exL ex_world (OtherError ''i/o timeout''))) = 500"
    by simp
  have h1': "?h \<notin> set (emptyHashes exL) \<and> shouldEnable ?cf \<and> CachedFileSize ?cf ?h = (5, True) \<and>
    \<not> panicked ex_world \<and> storageWeights ?cf \<noteq> [] \<and>
    length (storages ?cf) = length (storageWeights ?cf) \<and>
    0 = weighted_start 0 (storageWeights ?cf) (storageTotalWeight ?cf)"
    using h1 by simp
  have h2': "1 = nat (if (0::int) = 0 then int (length (storages ?cf)) - 1 else 0 - 1) \<and>
    (\<forall>r. snd (snd (ServeDownload (storages ?cf ! 0) ex_req_plain r ?h 5)) = Some (?errs ! 0)) \<and>
    (\<forall>r. snd (snd (ServeDownload (storages ?cf ! 1) ex_req_plain r ?h 5)) = Some (?errs ! 1))"
    by (simp add: ex_cluster_fields sto_gone_def sto_broken_def)
  show ?thesis
    by (intro conjI h1' h2' c1 g1' g2 c2 s0 c3)
qed

text \<open>
  The claim as it was stated fails twice. With the weights 1 and 1 and the sample 0, the
  first backend fails with a not-exist error and the second with another error: the
  response is 500 with the second error's message, not the 404 of the first. And when
  the second backend serves five bytes after the error of the first, the hit is
  counted, and yet the error response of the first error is written after the body.
\<close>

theorem last_error_is_surfaced_counterexample:
  "storages (ex_cluster [sto_gone, sto_broken]) = [sto_gone, sto_broken] \<and>
   snd (snd (ServeDownload sto_gone ex_req_plain ex_rw ''5d41402abc4b2a76b9719d911017c592'' 5)) =
     Some (NotExistError ''file does not exist'') \<and>
   snd (snd (ServeDownload sto_broken ex_req_plain ex_rw ''5d41402abc4b2a76b9719d911017c592'' 5)) =
     Some (OtherError ''i/o timeout'') \<and>
   trace (handleDownload exL (ex_cluster [sto_gone, sto_broken]) 0 ex_req_plain
            ''5d41402abc4b2a76b9719d911017c592'' ex_world) =
     [EvCachedFileSize, EvServeDownload 0, EvServeDownload 1] \<and>
   status (rw (handleDownload exL (ex_cluster [sto_gone, sto_broken]) 0 ex_req_plain
            ''5d41402abc4b2a76b9719d911017c592'' ex_world)) = 500 \<and>
   body (rw (handleDownload exL (ex_cluster [sto_gone, sto_broken]) 0 ex_req_plain
            ''5d41402abc4b2a76b9719d911017c592'' ex_world)) = ''i/o timeout'' @ [CHR 0x0A] \<and>
   trace (handleDownload exL (ex_cluster [sto_gone, sto_ok]) 0 ex_req_plain
            ''5d41402abc4b2a76b9719d911017c592'' ex_world) =
     [EvCachedFileSize, EvServeDownload 0, EvServeDownload 1] \<and>
   hits (handleDownload exL (ex_cluster [sto_gone, sto_ok]) 0 ex_req_plain
            ''5d41402abc4b2a76b9719d911017c592'' ex_world) = 1 \<and>
   body (rw (handleDownload exL (ex_cluster [sto_gone, sto_ok]) 0 ex_req_plain
            ''5d41402abc4b2a76b9719d911017c592'' ex_world)) =
     ''hello'' @ ''404 Status Not Found'' @ [CHR 0x0A]"
proof -
  have a: "storages (ex_cluster [sto_gone, sto_broken]) = [sto_gone, sto_broken]"
    by (simp add: ex_cluster_fields)
  have b: "snd (snd (ServeDownload sto_gone ex_req_plain ex_rw ''5d41402abc4b2a76b9719d911017c592'' 5)) =
     Some (NotExistError ''file does not exist'')"
    "snd (snd (ServeDownload sto_broken ex_req_plain ex_rw ''5d41402abc4b2a76b9719d911017c592'' 5)) =
     Some (OtherError ''i/o timeout'')"
    by (simp_all add: sto_gone_def sto_broken_def)
  have c: "trace (handleDownload exL (ex_cluster [sto_gone, sto_broken]) 0 ex_req_plain
            ''5d41402abc4b2a76b9719d911017c592'' ex_world) =
     [EvCachedFileSize, EvServeDownload 0, EvServeDownload 1]"
    "status (rw (handleDownload exL (ex_cluster [sto_gone, sto_broken]) 0 ex_req_plain
            ''5d41402abc4b2a76b9719d911017c592'' ex_world)) = 500"
    "body (rw (handleDownload exL (ex_cluster [sto_gone, sto_broken]) 0 ex_req_plain
            ''5d41402abc4b2a76b9719d911017c592'' ex_world)) = ''i/o timeout'' @ [CHR 0x0A]"
    unfolding ex_walk_fail_exact
    by (simp_all add: respondError_def err_Error_def SetAccessInfo_def http_Error_def Write_def
        WriteHeader_def Header_Set_def ex_bw_fields ex_rw_def)
  have d: "trace (handleDownload exL (ex_cluster [sto_gone, sto_ok]) 0 ex_req_plain
            ''5d41402abc4b2a76b9719d911017c592'' ex_world) =
     [EvCachedFileSize, EvServeDownload 0, EvServeDownload 1]"
    "hits (handleDownload exL (ex_cluster [sto_gone, sto_ok]) 0 ex_req_plain
            ''5d41402abc4b2a76b9719d911017c592'' ex_world) = 1"
    "body (rw (handleDownload exL (ex_cluster [sto_gone, sto_ok]) 0 ex_req_plain
            ''5d41402abc4b2a76b9719d911017c592'' ex_world)) =
     ''hello'' @ ''404 Status Not Found'' @ [CHR 0x0A]"
    unfolding ex_walk_stale_exact
    by (simp_all add: respondError_def SetAccessInfo_def http_Error_def Write_def
        WriteHeader_def Header_Set_def ex_rw_def)
  show ?thesis by (intro conjI a b c d)
qed


end
